theory Spec2Isabelle
  imports Main "HOL-Library.Word" "HOL-Library.AList"
begin

section \<open>The workflow test environment of internal_workflow_testsuite.go\<close>

text \<open>
  The environment is modelled as one state record that is passed through every operation.
  Go's goroutines appear as separate steps of the model (an activity finishing in the
  background, a wall-clock timer firing); the mutex is not modelled, since the steps are
  interleaved, never overlapped. Closures that the code posts on the callback channel are
  defunctionalised: one constructor of \<open>callback_fn\<close> per closure of the source, holding
  the variables the closure captures, and \<open>run_callback\<close> is the closure's body.
  Functions of the user and of other files (result handlers, listeners, the workflow
  definition, the cancel and signal handlers, the channel a mock's return values are
  sent on) are external: a call of one is recorded in the \<open>trace\<close> of the state, and
  what the callee does in turn is outside the model; it can reach the environment only
  through the environment's operations. Logging is left out.
\<close>

subsection \<open>Go values\<close>

type_synonym bytes = string

text \<open>\<open>int\<close> of Go on a 64-bit platform, and \<open>atomic.Int32\<close>.\<close>

type_synonym go_int = "64 word"
type_synonym go_int32 = "32 word"

text \<open>\<open>time.Time\<close> as nanoseconds, \<open>time.Duration\<close> as nanoseconds in 64 bits.\<close>

type_synonym time = int
type_synonym duration = int

definition maxDuration :: duration where
  "maxDuration = 2 ^ 63 - 1"

definition minDuration :: duration where
  "minDuration = - (2 ^ 63)"

text \<open>\<open>t.Sub(u)\<close> saturates at the largest and the smallest duration.\<close>

definition time_Sub :: "time \<Rightarrow> time \<Rightarrow> duration" where
  "time_Sub t u = (if t - u > maxDuration then maxDuration
                   else if t - u < minDuration then minDuration else t - u)"

definition time_Add :: "time \<Rightarrow> duration \<Rightarrow> time" where
  "time_Add t d = t + d"

text \<open>The errors the file tells apart. \<open>NewCanceledError\<close> and the error types are
  declared in another file; an error is represented by its type and what it carries.\<close>

datatype error =
    CanceledError "bytes list"
  | ContinueAsNewError
  | TimeoutError
  | ErrActivityResultPending
  | EntityNotExistsError
  | OtherError string bytes

definition NewCanceledError :: "bytes list \<Rightarrow> error" where
  "NewCanceledError details = CanceledError details"

text \<open>What an activity task handler returns: \<open>None\<close> is the nil interface.\<close>

datatype respond =
    RespondActivityTaskCanceledRequest bytes
  | RespondActivityTaskFailedRequest "string option" bytes
  | RespondActivityTaskCompletedRequest bytes
  | RespondUnsupported string

text \<open>A result handler is a closure of the workflow code, known by a name.\<close>

type_synonym resultHandler = nat

text \<open>An environment object (\<open>*testWorkflowEnvironmentImpl\<close>) is known by its address.\<close>

type_synonym env_ref = nat

datatype panic =
    PanicUnsupportedRespondType string
  | PanicNilDereference
  | PanicTestTimeout
  | PanicCloseOfClosedChannel
  | PanicNonFuncType
  | PanicNoActivityRegistered string
  | PanicEncodeError error
  | PanicMockNoReturns string
  | PanicMockIncorrectReturnFunction string
  | PanicMockIncorrectNumberOfReturns string nat nat
  | PanicMockIncorrectErrorType string
  | PanicMockIncorrectReturnType string
  | PanicMockEncodeFailed string
  | PanicMockReturnCount
  | PanicOutOfRange

text \<open>An operation either returns, panics, or blocks on the full callback channel.\<close>

datatype fault = Panic panic | Blocked

text \<open>Sequencing: the second step runs on what the first returns, if it returns.\<close>

definition then_do :: "fault + 'a \<Rightarrow> ('a \<Rightarrow> fault + 'b) \<Rightarrow> fault + 'b" where
  "then_do r f = (case r of Inl x \<Rightarrow> Inl x | Inr a \<Rightarrow> f a)"

subsection \<open>Identifiers\<close>

definition digit_char :: "nat \<Rightarrow> char" where
  "digit_char n = ''0123456789'' ! n"

function show_nat :: "nat \<Rightarrow> string" where
  "show_nat n = (if n < 10 then [digit_char n]
                 else show_nat (n div 10) @ [digit_char (n mod 10)])"
  by pat_completeness auto
termination
  by (relation "measure id") auto

declare show_nat.simps [simp del]

text \<open>\<open>fmt.Sprintf("%d", intID)\<close>\<close>

definition getStringID :: "go_int \<Rightarrow> string" where
  "getStringID intID =
     (if sint intID < 0 then CHR ''-'' # show_nat (nat (- sint intID))
      else show_nat (nat (sint intID)))"

subsection \<open>Reflection\<close>

datatype kind =
    reflect_Invalid | reflect_Bool | reflect_Int | reflect_Int8 | reflect_Int16
  | reflect_Int32 | reflect_Int64 | reflect_Uint | reflect_Uint8 | reflect_Uint16
  | reflect_Uint32 | reflect_Uint64 | reflect_Uintptr | reflect_Float32 | reflect_Float64
  | reflect_Complex64 | reflect_Complex128 | reflect_Array | reflect_Chan | reflect_Func
  | reflect_Interface | reflect_Map | reflect_Ptr | reflect_Slice | reflect_String
  | reflect_Struct | reflect_UnsafePointer

text \<open>A \<open>reflect.Type\<close>: its name, its kind and, for a function type, its result types.\<close>

datatype rtype = RType string kind "rtype list"

fun Kind :: "rtype \<Rightarrow> kind" where
  "Kind (RType n k outs) = k"

fun NumOut :: "rtype \<Rightarrow> fault + nat" where
  "NumOut (RType n k outs) =
     (if k = reflect_Func then Inr (length outs) else Inl (Panic PanicNonFuncType))"

fun Out :: "rtype \<Rightarrow> nat \<Rightarrow> fault + rtype" where
  "Out (RType n k outs) i =
     (if k \<noteq> reflect_Func then Inl (Panic PanicNonFuncType)
      else if i < length outs then Inr (outs ! i) else Inl (Panic PanicOutOfRange))"

text \<open>A non-nil interface value: its dynamic type and its content.\<close>

datatype go_value = GoValue rtype bytes

fun TypeOf :: "go_value \<Rightarrow> rtype" where
  "TypeOf (GoValue t b) = t"

subsection \<open>Handles, callbacks and the state\<close>

record ActivityInfo =
  ActivityID :: string
  ActivityType :: string
  TaskToken :: bytes
  WorkflowExecution :: "string \<times> string"

record testActivityHandle =
  ah_callback :: resultHandler
  activityType :: string

record testTimerHandle =
  th_env :: env_ref
  th_callback :: resultHandler
  timer :: nat
  wallTimer :: "nat option"
  duration :: duration
  mockTimeToFire :: time
  wallTimeToFire :: time
  timerID :: go_int

record testChildWorkflowHandle =
  ch_env :: env_ref
  ch_callback :: resultHandler

text \<open>
  The closures posted on the callback channel, each with its captured variables, in the
  order of the source: the ones of \<open>mockHeartbeatFn\<close>, \<open>executeWorkflowInternal\<close>,
  \<open>registerDelayedCallback\<close> (it captures the result handler \<open>timerCallback\<close>, which
  calls the delayed function), \<open>autoFireNextTimer\<close>, \<open>RequestCancelActivity\<close>,
  \<open>RequestCancelTimer\<close>, \<open>Complete\<close>, \<open>CompleteActivity\<close>, \<open>ExecuteActivity\<close>, the
  two \<open>Execute\<close> wrappers (the listener closures and the one that sends the mock's
  return values), \<open>newTimer\<close>, \<open>RequestCancelWorkflow\<close>, \<open>cancelWorkflow\<close> and
  \<open>signalWorkflow\<close>. The environment a closure captures is the one it is posted on,
  except for the closure of \<open>Complete\<close>, which is posted on the parent and holds the
  child.
\<close>

datatype callback_fn =
    heartbeat_cb ActivityInfo bytes
  | execute_workflow_cb bytes
  | delayed_callback_cb resultHandler duration
  | fire_guard_cb go_int
  | cancel_activity_cb testActivityHandle ActivityInfo
  | cancel_timer_cb testTimerHandle string
  | child_completed_cb env_ref testChildWorkflowHandle
  | complete_activity_cb string bytes "bytes option" "error option"
  | activity_result_cb string "respond option" string
  | activity_started_cb ActivityInfo bytes
  | child_started_cb bytes
  | mock_ready_cb "go_value option list option"
  | timer_fired_cb resultHandler bool string
  | child_canceled_cb
  | cancel_workflow_cb
  | signal_cb string bytes

record testCallbackHandle =
  callback :: callback_fn
  startDecisionTaskFlag :: bool
  cb_env :: env_ref

text \<open>The functions given to \<open>AfterFunc\<close>: the one of \<open>newTimer\<close> on the mock clock and
  the one of \<open>autoFireNextTimer\<close> on the wall clock.\<close>

datatype timer_fn =
    mock_fire_fn env_ref string resultHandler bool
  | wall_guard_fn env_ref go_int

record clock_timer =
  ct_ref :: nat
  ct_deadline :: time
  ct_fn :: timer_fn

datatype event =
    handler_called resultHandler "bytes option" "error option"
  | onActivityCompleted ActivityInfo "bytes option" "error option"
  | onActivityCanceled ActivityInfo
  | onActivityHeartbeat ActivityInfo bytes
  | onChildWorkflowCompleted env_ref "bytes option" "error option"
  | onTimerScheduled string duration
  | onTimerFired string
  | onTimerCancelled string
  | OnDecisionTaskStarted env_ref
  | workflowCancelHandler_called env_ref
  | workflowDef_Execute env_ref bytes
  | onActivityStarted ActivityInfo bytes
  | onChildWorkflowStarted env_ref bytes
  | onChildWorkflowCanceled env_ref
  | mockReadyChannel_SendAsync env_ref "go_value option list option"
  | signalHandler_called env_ref string bytes

text \<open>The fields of one environment that are its own (not shared with its children).\<close>

record testWorkflowEnvironmentImpl =
  parentEnv :: "env_ref option"
  workflowInfo_ID :: string
  workflowInfo_RunID :: string
  workflowCancelHandler :: bool
  signalHandler :: bool
  isTestCompleted :: bool
  testResult :: "bytes option"
  testError :: "error option"
  doneChannel :: bool

text \<open>
  The shared part (\<open>testWorkflowEnvironmentShared\<close>) together with the environments that
  point to it. \<open>doneChannel\<close> is \<open>True\<close> once the channel is closed; a handler or
  listener field is \<open>True\<close> when the handler or listener is set (not nil). The timer registry is an association list: its
  order stands for the order in which Go happens to iterate over the map.
\<close>

record testWorkflowEnvironmentShared =
  envs :: "env_ref \<Rightarrow> testWorkflowEnvironmentImpl"
  mockClock_now :: time
  mockClock_timers :: "clock_timer list"
  wallClock_now :: time
  wallClock_timers :: "clock_timer list"
  timer_refs :: nat
  callbackChannel :: "testCallbackHandle list"
  counterID :: go_int
  activities :: "string \<rightharpoonup> testActivityHandle"
  timers :: "(string \<times> testTimerHandle) list"
  childWorkflows :: "string \<rightharpoonup> testChildWorkflowHandle"
  runningCount :: go_int32
  onActivityStartedListener :: bool
  onActivityCompletedListener :: bool
  onActivityCanceledListener :: bool
  onActivityHeartbeatListener :: bool
  onChildWorkflowStartedListener :: bool
  onChildWorkflowCompletedListener :: bool
  onChildWorkflowCanceledListener :: bool
  onTimerScheduledListener :: bool
  onTimerFiredListener :: bool
  onTimerCancelledListener :: bool
  trace :: "event list"

type_synonym state = testWorkflowEnvironmentShared

definition emit :: "event \<Rightarrow> state \<Rightarrow> state" where
  "emit ev s = s\<lparr>trace := trace s @ [ev]\<rparr>"

definition callbackChannel_capacity :: nat where
  "callbackChannel_capacity = 1000"

text \<open>Sending on the buffered channel: a send on a full channel does not return.\<close>

definition postCallback :: "env_ref \<Rightarrow> callback_fn \<Rightarrow> bool \<Rightarrow> state \<Rightarrow> fault + state" where
  "postCallback e cb sdt s =
     (if length (callbackChannel s) < callbackChannel_capacity
      then Inr (s\<lparr>callbackChannel := callbackChannel s @
                  [\<lparr>callback = cb, startDecisionTaskFlag = sdt, cb_env = e\<rparr>]\<rparr>)
      else Inl Blocked)"

definition nextID :: "state \<Rightarrow> go_int \<times> state" where
  "nextID s = (counterID s, s\<lparr>counterID := counterID s + 1\<rparr>)"

definition getActivityInfo :: "env_ref \<Rightarrow> string \<Rightarrow> string \<Rightarrow> state \<Rightarrow> ActivityInfo" where
  "getActivityInfo e activityID aType s =
     \<lparr>ActivityID = activityID, ActivityType = aType, TaskToken = activityID,
      WorkflowExecution = (workflowInfo_ID (envs s e), workflowInfo_RunID (envs s e))\<rparr>"

definition isChildWorkflow :: "env_ref \<Rightarrow> state \<Rightarrow> bool" where
  "isChildWorkflow e s = (parentEnv (envs s e) \<noteq> None)"

definition startDecisionTask :: "env_ref \<Rightarrow> state \<Rightarrow> state" where
  "startDecisionTask e s =
     (if \<not> isTestCompleted (envs s e) then emit (OnDecisionTaskStarted e) s else s)"

subsection \<open>The two clocks\<close>

text \<open>
  Modelled from the spec: the clock library is not among the sources. Section 4.3 says of
  it that advancing the mock clock "synchronously invokes the mock-timer callback chain";
  a clock holds the timers armed on it, \<open>Stop\<close> disarms one, \<open>AfterFunc\<close> arms a new
  one, and \<open>Add\<close> on the mock clock runs the timers that are due, earliest first, each
  at its own deadline, and ends at the new time. The wall clock is the real one: its
  time and the firing of its timers are steps of the surroundings (\<open>wallTimer_fires\<close>).
\<close>

definition Timer_Stop :: "nat \<Rightarrow> clock_timer list \<Rightarrow> clock_timer list" where
  "Timer_Stop r cs = filter (\<lambda>c. ct_ref c \<noteq> r) cs"

definition mockClock_AfterFunc :: "duration \<Rightarrow> timer_fn \<Rightarrow> state \<Rightarrow> nat \<times> state" where
  "mockClock_AfterFunc d f s =
     (timer_refs s,
      s\<lparr>mockClock_timers := mockClock_timers s @
           [\<lparr>ct_ref = timer_refs s, ct_deadline = time_Add (mockClock_now s) d, ct_fn = f\<rparr>],
        timer_refs := timer_refs s + 1\<rparr>)"

definition wallClock_AfterFunc :: "duration \<Rightarrow> timer_fn \<Rightarrow> state \<Rightarrow> nat \<times> state" where
  "wallClock_AfterFunc d f s =
     (timer_refs s,
      s\<lparr>wallClock_timers := wallClock_timers s @
           [\<lparr>ct_ref = timer_refs s, ct_deadline = time_Add (wallClock_now s) d, ct_fn = f\<rparr>],
        timer_refs := timer_refs s + 1\<rparr>)"

text \<open>The bodies of the two functions given to \<open>AfterFunc\<close> (in \<open>newTimer\<close> and in
  \<open>autoFireNextTimer\<close>).\<close>

definition run_timer_fn :: "timer_fn \<Rightarrow> state \<Rightarrow> fault + state" where
  "run_timer_fn f s =
     (case f of
        mock_fire_fn e tid cb notifyListener \<Rightarrow>
          postCallback e (timer_fired_cb cb notifyListener tid) True
            (s\<lparr>timers := AList.delete tid (timers s)\<rparr>)
      | wall_guard_fn e n \<Rightarrow> postCallback e (fire_guard_cb n) True s)"

fun fire_all :: "clock_timer list \<Rightarrow> state \<Rightarrow> fault + state" where
  "fire_all [] s = Inr s"
| "fire_all (c # cs) s =
     then_do
       (run_timer_fn (ct_fn c)
          (s\<lparr>mockClock_now := ct_deadline c,
             mockClock_timers := Timer_Stop (ct_ref c) (mockClock_timers s)\<rparr>))
       (fire_all cs)"

definition mockClock_Add :: "duration \<Rightarrow> state \<Rightarrow> fault + state" where
  "mockClock_Add d s =
     (let t = time_Add (mockClock_now s) d;
          due = sort_key ct_deadline (filter (\<lambda>c. ct_deadline c \<le> t) (mockClock_timers s))
      in then_do (fire_all due s) (\<lambda>s'. Inr (s'\<lparr>mockClock_now := t\<rparr>)))"

definition wallTimer_fires :: "nat \<Rightarrow> state \<Rightarrow> fault + state" where
  "wallTimer_fires r s =
     (case find (\<lambda>c. ct_ref c = r) (wallClock_timers s) of
        None \<Rightarrow> Inr s
      | Some c \<Rightarrow>
          run_timer_fn (ct_fn c)
            (s\<lparr>wallClock_now := max (wallClock_now s) (ct_deadline c),
               wallClock_timers := Timer_Stop r (wallClock_timers s)\<rparr>))"

subsection \<open>Timers\<close>

definition newTimer ::
  "env_ref \<Rightarrow> duration \<Rightarrow> resultHandler \<Rightarrow> bool \<Rightarrow> state \<Rightarrow> string \<times> state" where
  "newTimer e d cb notifyListener s =
     (let (nid, s1) = nextID s;
          tid = getStringID nid;
          (tm, s2) = mockClock_AfterFunc d (mock_fire_fn e tid cb notifyListener) s1;
          s3 = s2\<lparr>timers := AList.update tid
                 \<lparr>th_env = e, th_callback = cb, timer = tm, wallTimer = None, duration = d,
                  mockTimeToFire = time_Add (mockClock_now s2) d,
                  wallTimeToFire = time_Add (wallClock_now s2) d,
                  timerID = nid\<rparr> (timers s2)\<rparr>
      in (tid, if notifyListener \<and> onTimerScheduledListener s3
               then emit (onTimerScheduled tid d) s3 else s3))"

definition NewTimer :: "env_ref \<Rightarrow> duration \<Rightarrow> resultHandler \<Rightarrow> state \<Rightarrow> string \<times> state" where
  "NewTimer e d cb s = newTimer e d cb True s"

definition RequestCancelTimer :: "env_ref \<Rightarrow> string \<Rightarrow> state \<Rightarrow> fault + state" where
  "RequestCancelTimer e tid s =
     (case map_of (timers s) tid of
        None \<Rightarrow> Inr s
      | Some timerHandle \<Rightarrow>
          postCallback (th_env timerHandle) (cancel_timer_cb timerHandle tid) True
            (s\<lparr>timers := AList.delete tid (timers s),
               mockClock_timers := Timer_Stop (timer timerHandle) (mockClock_timers s)\<rparr>))"

text \<open>The loop of \<open>autoFireNextTimer\<close> that finds the next timer; the first argument is
  \<open>nextTimer\<close> (with the key it is stored under), \<open>None\<close> for nil.\<close>

fun find_next ::
  "(string \<times> testTimerHandle) option \<Rightarrow> (string \<times> testTimerHandle) list
     \<Rightarrow> (string \<times> testTimerHandle) option" where
  "find_next nextTimer [] = nextTimer"
| "find_next None (kt # rest) = find_next (Some kt) rest"
| "find_next (Some (k, n)) ((k', t) # rest) =
     (if mockTimeToFire t < mockTimeToFire n \<or>
         (mockTimeToFire t = mockTimeToFire n \<and> sint (timerID t) < sint (timerID n))
      then find_next (Some (k', t)) rest
      else find_next (Some (k, n)) rest)"

definition fireTimer :: "testTimerHandle \<Rightarrow> state \<Rightarrow> fault + state" where
  "fireTimer th s = mockClock_Add (time_Sub (mockTimeToFire th) (mockClock_now s)) s"

text \<open>\<open>autoFireNextTimer\<close> from the point where \<open>nextTimer\<close> is known: \<open>k\<close> is the
  key under which the registry holds the handle \<open>nextTimer\<close> points to.\<close>

definition autoFire_selected ::
  "env_ref \<Rightarrow> string \<Rightarrow> testTimerHandle \<Rightarrow> state \<Rightarrow> fault + (bool \<times> state)" where
  "autoFire_selected e k nextTimer s =
     (if runningCount s = 0 then
        (let s1 = (case wallTimer nextTimer of
                     None \<Rightarrow> s
                   | Some w \<Rightarrow>
                       s\<lparr>wallClock_timers := Timer_Stop w (wallClock_timers s),
                         timers := AList.update k (nextTimer\<lparr>wallTimer := None\<rparr>) (timers s)\<rparr>)
         in then_do (fireTimer nextTimer s1) (\<lambda>s2. Inr (True, s2)))
      else
        (let durationToFire = time_Sub (mockTimeToFire nextTimer) (mockClock_now s);
             wallTime = time_Add (wallClock_now s) durationToFire
         in if wallTimer nextTimer \<noteq> None \<and> wallTimeToFire nextTimer < wallTime
            then Inr (False, s)
            else
              (let s1 = (case wallTimer nextTimer of
                           None \<Rightarrow> s
                         | Some w \<Rightarrow> s\<lparr>wallClock_timers := Timer_Stop w (wallClock_timers s)\<rparr>);
                   (w', s2) = wallClock_AfterFunc durationToFire
                                (wall_guard_fn (th_env nextTimer) (timerID nextTimer)) s1
               in Inr (False,
                    s2\<lparr>timers := AList.update k
                          (nextTimer\<lparr>wallTimeToFire := wallTime, wallTimer := Some w'\<rparr>)
                          (timers s2)\<rparr>))))"

definition autoFireNextTimer :: "env_ref \<Rightarrow> state \<Rightarrow> fault + (bool \<times> state)" where
  "autoFireNextTimer e s =
     (if length (timers s) = 0 then Inr (False, s)
      else
        (case find_next None (timers s) of
           None \<Rightarrow> Inl (Panic PanicNilDereference)
         | Some (k, nextTimer) \<Rightarrow> autoFire_selected e k nextTimer s))"

subsection \<open>The host environment\<close>

text \<open>
  What the file calls in other files and libraries, taken as parameters: the argument
  codec, the construction of errors, the conversion of an activity's result into a
  respond request, the registry of activities, assignability of types, the test whether
  a value is an \<open>error\<close>, and the executors that run a function.
\<close>

record host =
  encodeArg :: "go_value \<Rightarrow> error + bytes"
  constructError :: "string \<Rightarrow> bytes \<Rightarrow> error"
  getErrorDetails :: "error \<Rightarrow> string \<times> bytes"
  convertActivityResultToRespondRequest ::
    "string \<Rightarrow> bytes \<Rightarrow> bytes option \<Rightarrow> error option \<Rightarrow> respond option"
  registeredActivities :: "string list"
  AssignableTo :: "rtype \<Rightarrow> rtype \<Rightarrow> bool"
  implements_error :: "rtype \<Rightarrow> bool"
  executor_Execute ::
    "bool \<Rightarrow> string \<Rightarrow> go_value \<Rightarrow> bytes \<Rightarrow> fault + (bytes option \<times> go_value option)"

subsection \<open>Activities\<close>

record executeActivityParameters =
  ep_ActivityID :: "string option"
  ep_ActivityType :: string
  ep_TaskListName :: string

text \<open>\<open>ExecuteActivity\<close> up to the start of the goroutine; it returns the activity id.\<close>

definition ExecuteActivity ::
  "host \<Rightarrow> env_ref \<Rightarrow> executeActivityParameters \<Rightarrow> resultHandler \<Rightarrow> state
     \<Rightarrow> fault + (string \<times> state)" where
  "ExecuteActivity h e parameters cb s =
     (let (activityID, s1) =
            (if ep_ActivityID parameters = None \<or> ep_ActivityID parameters = Some []
             then (let (n, s') = nextID s in (getStringID n, s'))
             else (the (ep_ActivityID parameters), s))
      in if length (registeredActivities h) = 0
         then Inl (Panic (PanicNoActivityRegistered (ep_TaskListName parameters)))
         else Inr (activityID,
                s1\<lparr>activities := (activities s1)(activityID \<mapsto>
                       \<lparr>ah_callback = cb, activityType = ep_ActivityType parameters\<rparr>),
                   runningCount := runningCount s1 + 1\<rparr>))"

text \<open>The end of the goroutine of \<open>ExecuteActivity\<close>, once the task handler has returned
  \<open>result\<close>: it posts the result and decrements the running count.\<close>

definition ExecuteActivity_goroutine ::
  "env_ref \<Rightarrow> string \<Rightarrow> respond option \<Rightarrow> string \<Rightarrow> state \<Rightarrow> fault + state" where
  "ExecuteActivity_goroutine e activityID result aType s =
     then_do (postCallback e (activity_result_cb activityID result aType) False s)
       (\<lambda>s1. Inr (s1\<lparr>runningCount := runningCount s1 - 1\<rparr>))"

text \<open>The type switch of \<open>handleActivityResult\<close>: the result and the error that are
  handed to the activity's callback.\<close>

definition translate_respond :: "host \<Rightarrow> respond \<Rightarrow> fault + (bytes option \<times> error option)" where
  "translate_respond h request =
     (case request of
        RespondActivityTaskCanceledRequest details \<Rightarrow>
          Inr (None, Some (NewCanceledError [details]))
      | RespondActivityTaskFailedRequest reason details \<Rightarrow>
          (case reason of
             None \<Rightarrow> Inl (Panic PanicNilDereference)
           | Some r \<Rightarrow> Inr (None, Some (constructError h r details)))
      | RespondActivityTaskCompletedRequest res \<Rightarrow> Inr (Some res, None)
      | RespondUnsupported t \<Rightarrow> Inl (Panic (PanicUnsupportedRespondType t)))"

definition handleActivityResult ::
  "host \<Rightarrow> env_ref \<Rightarrow> string \<Rightarrow> respond option \<Rightarrow> string \<Rightarrow> state \<Rightarrow> fault + state" where
  "handleActivityResult h e activityID result aType s =
     (let activityInfo = getActivityInfo e activityID aType s in
      case result of
        None \<Rightarrow>
          Inr (if onActivityCompletedListener s
               then emit (onActivityCompleted activityInfo None (Some ErrActivityResultPending)) s
               else s)
      | Some request \<Rightarrow>
          (case activities s activityID of
             None \<Rightarrow> Inr s
           | Some activityHandle \<Rightarrow>
               (let s1 = s\<lparr>activities := (activities s)(activityID := None)\<rparr> in
                then_do (translate_respond h request)
                  (\<lambda>(blob, err).
                     let s2 = emit (handler_called (ah_callback activityHandle) blob err) s1;
                         s3 = (if onActivityCompletedListener s2
                               then emit (onActivityCompleted activityInfo blob err) s2
                               else s2)
                     in Inr (startDecisionTask e s3)))))"

text \<open>\<open>CompleteActivity\<close>: the task token is \<open>None\<close> when nil; it returns the error it
  gives back to the test author. \<open>encode_result\<close> is its encoding of a non-nil result.\<close>

definition encode_result :: "host \<Rightarrow> go_value option \<Rightarrow> error + bytes option" where
  "encode_result h result =
     (case result of
        None \<Rightarrow> Inr None
      | Some v \<Rightarrow> (case encodeArg h v of
                     Inl encodeErr \<Rightarrow> Inl encodeErr
                   | Inr d \<Rightarrow> Inr (Some d)))"

definition CompleteActivity ::
  "host \<Rightarrow> env_ref \<Rightarrow> bytes option \<Rightarrow> go_value option \<Rightarrow> error option \<Rightarrow> state
     \<Rightarrow> fault + (error option \<times> state)" where
  "CompleteActivity h e taskToken result err s =
     (case taskToken of
        None \<Rightarrow> Inr (Some (OtherError ''nil task token provided'' []), s)
      | Some token \<Rightarrow>
          (case encode_result h result of
             Inl encodeErr \<Rightarrow> Inr (Some encodeErr, s)
           | Inr data \<Rightarrow>
               then_do (postCallback e (complete_activity_cb token token data err) False s)
                 (\<lambda>s1. Inr (None, s1))))"

definition RequestCancelActivity :: "env_ref \<Rightarrow> string \<Rightarrow> state \<Rightarrow> fault + state" where
  "RequestCancelActivity e activityID s =
     (case activities s activityID of
        None \<Rightarrow> Inr s
      | Some handle \<Rightarrow>
          (let activityInfo = getActivityInfo e activityID (activityType handle) s in
           postCallback e (cancel_activity_cb handle activityInfo) True
             (s\<lparr>activities := (activities s)(activityID := None)\<rparr>)))"

text \<open>The heartbeat function of the mocked service and the mocked call itself: the action
  registered with \<open>Do\<close> runs \<open>mockHeartbeatFn\<close> and drops what it returns; the call
  returns what was given to \<open>Return\<close>, a response with \<open>CancelRequested\<close> false and a
  nil error.\<close>

definition mockHeartbeatFn ::
  "env_ref \<Rightarrow> bytes \<Rightarrow> bytes \<Rightarrow> state \<Rightarrow> fault + (error option \<times> state)" where
  "mockHeartbeatFn e taskToken details s =
     (let activityID = taskToken in
      case activities s activityID of
        None \<Rightarrow> Inr (Some EntityNotExistsError, s)
      | Some activityHandle \<Rightarrow>
          (let activityInfo = getActivityInfo e activityID (activityType activityHandle) s in
           then_do (postCallback e (heartbeat_cb activityInfo details) False s)
             (\<lambda>s1. Inr (None, s1))))"

definition RecordActivityTaskHeartbeat ::
  "env_ref \<Rightarrow> bytes \<Rightarrow> bytes \<Rightarrow> state \<Rightarrow> fault + ((bool \<times> error option) \<times> state)" where
  "RecordActivityTaskHeartbeat e taskToken details s =
     then_do (mockHeartbeatFn e taskToken details s)
       (\<lambda>(dropped, s1). Inr ((False, None), s1))"

subsection \<open>Completion of a workflow\<close>

definition Complete ::
  "host \<Rightarrow> env_ref \<Rightarrow> bytes option \<Rightarrow> error option \<Rightarrow> state \<Rightarrow> fault + state" where
  "Complete h e result err s =
     (if isTestCompleted (envs s e) then Inr s
      else
        (let s1 = (case err of
                     Some (CanceledError d) \<Rightarrow>
                       if workflowCancelHandler (envs s e)
                       then emit (workflowCancelHandler_called e) s else s
                   | _ \<Rightarrow> s);
             s2 = s1\<lparr>envs := (envs s1)(e := (envs s1 e)
                     \<lparr>isTestCompleted := True, testResult := result\<rparr>)\<rparr>;
             s3 = (case err of
                     None \<Rightarrow> s2
                   | Some er \<Rightarrow>
                       s2\<lparr>envs := (envs s2)(e := (envs s2 e)\<lparr>testError :=
                         Some (case er of
                                 CanceledError d \<Rightarrow> er
                               | ContinueAsNewError \<Rightarrow> er
                               | TimeoutError \<Rightarrow> er
                               | _ \<Rightarrow> constructError h (fst (getErrorDetails h er))
                                                         (snd (getErrorDetails h er)))\<rparr>)\<rparr>)
         in if doneChannel (envs s3 e) then Inl (Panic PanicCloseOfClosedChannel)
            else
              (let s4 = s3\<lparr>envs := (envs s3)(e := (envs s3 e)\<lparr>doneChannel := True\<rparr>)\<rparr> in
               case parentEnv (envs s4 e) of
                 None \<Rightarrow> Inr s4
               | Some parent \<Rightarrow>
                   (let childWorkflowID = workflowInfo_ID (envs s4 e) in
                    case childWorkflows s4 childWorkflowID of
                      None \<Rightarrow> Inr s4
                    | Some childWorkflowHandle \<Rightarrow>
                        postCallback parent (child_completed_cb e childWorkflowHandle) True
                          (s4\<lparr>childWorkflows :=
                                (childWorkflows s4)(childWorkflowID := None)\<rparr>)))))"

subsection \<open>Delayed callbacks, signals and cancellation of a workflow\<close>



definition cancelWorkflow :: "env_ref \<Rightarrow> state \<Rightarrow> fault + state" where
  "cancelWorkflow e s = postCallback e cancel_workflow_cb True s"

text \<open>\<open>RequestCancelWorkflow\<close>: the function does not look at the domain name and the run
  id it is given, and the error it returns is always nil; both are left out.\<close>

definition RequestCancelWorkflow :: "env_ref \<Rightarrow> string \<Rightarrow> state \<Rightarrow> fault + state" where
  "RequestCancelWorkflow e workflowID s =
     (if workflowInfo_ID (envs s e) = workflowID then
        (if \<not> workflowCancelHandler (envs s e) then Inl (Panic PanicNilDereference)
         else
           (let s1 = emit (workflowCancelHandler_called e) s in
            if isChildWorkflow e s1 \<and> onChildWorkflowCanceledListener s1
            then postCallback e child_canceled_cb False s1
            else Inr s1))
      else
        (case childWorkflows s workflowID of
           Some childHandle \<Rightarrow>
             cancelWorkflow (ch_env childHandle)
               (s\<lparr>childWorkflows := (childWorkflows s)(workflowID := None)\<rparr>)
         | None \<Rightarrow> Inr s))"

subsection \<open>The main loop\<close>

text \<open>
  The bodies of the posted closures; \<open>e\<close> is the environment the closure is posted on.
  A closure that calls a listener is posted only when the listener is set, and calls it
  without a check of its own; calling a handler or listener that is nil panics.
\<close>

definition run_callback :: "host \<Rightarrow> env_ref \<Rightarrow> callback_fn \<Rightarrow> state \<Rightarrow> fault + state" where
  "run_callback h e cb s =
     (case cb of
        heartbeat_cb activityInfo details \<Rightarrow>
          Inr (if onActivityHeartbeatListener s
               then emit (onActivityHeartbeat activityInfo details) s else s)
      | cancel_activity_cb handle activityInfo \<Rightarrow>
          (let s1 = emit (handler_called (ah_callback handle) None
                            (Some (NewCanceledError []))) s
           in Inr (if onActivityCanceledListener s1
                   then emit (onActivityCanceled activityInfo) s1 else s1))
      | cancel_timer_cb timerHandle tid \<Rightarrow>
          (let s1 = emit (handler_called (th_callback timerHandle) None
                            (Some (NewCanceledError []))) s
           in Inr (if onTimerCancelledListener s1
                   then emit (onTimerCancelled tid) s1 else s1))
      | timer_fired_cb cb' notifyListener tid \<Rightarrow>
          (let s1 = emit (handler_called cb' None None) s
           in Inr (if notifyListener \<and> onTimerFiredListener s1
                   then emit (onTimerFired tid) s1 else s1))
      | fire_guard_cb n \<Rightarrow>
          (case map_of (timers s) (getStringID n) of
             None \<Rightarrow> Inr s
           | Some timerHandle \<Rightarrow> fireTimer timerHandle s)
      | activity_result_cb activityID result aType \<Rightarrow>
          handleActivityResult h e activityID result aType s
      | complete_activity_cb activityID taskToken data err \<Rightarrow>
          (case activities s activityID of
             None \<Rightarrow> Inr s
           | Some activityHandle \<Rightarrow>
               handleActivityResult h e activityID
                 (convertActivityResultToRespondRequest h ''test-identity'' taskToken data err)
                 (activityType activityHandle) s)
      | child_completed_cb child childWorkflowHandle \<Rightarrow>
          (let s1 = emit (handler_called (ch_callback childWorkflowHandle)
                            (testResult (envs s child)) (testError (envs s child))) s
           in Inr (if onChildWorkflowCompletedListener s1
                   then emit (onChildWorkflowCompleted child
                                (testResult (envs s child)) (testError (envs s child))) s1
                   else s1))
      | execute_workflow_cb input \<Rightarrow> Inr (emit (workflowDef_Execute e input) s)
      | delayed_callback_cb timerCallback delayDuration \<Rightarrow>
          Inr (snd (newTimer e delayDuration timerCallback False s))
      | activity_started_cb activityInfo input \<Rightarrow>
          (if onActivityStartedListener s
           then Inr (emit (onActivityStarted activityInfo input) s)
           else Inl (Panic PanicNilDereference))
      | child_started_cb input \<Rightarrow>
          (if onChildWorkflowStartedListener s
           then Inr (emit (onChildWorkflowStarted e input) s)
           else Inl (Panic PanicNilDereference))
      | mock_ready_cb mockRet \<Rightarrow> Inr (emit (mockReadyChannel_SendAsync e mockRet) s)
      | child_canceled_cb \<Rightarrow>
          (if onChildWorkflowCanceledListener s
           then Inr (emit (onChildWorkflowCanceled e) s)
           else Inl (Panic PanicNilDereference))
      | cancel_workflow_cb \<Rightarrow> RequestCancelWorkflow e (workflowInfo_ID (envs s e)) s
      | signal_cb name data \<Rightarrow>
          (if signalHandler (envs s e)
           then Inr (emit (signalHandler_called e name data) s)
           else Inl (Panic PanicNilDereference)))"

definition processCallback :: "host \<Rightarrow> testCallbackHandle \<Rightarrow> state \<Rightarrow> fault + state" where
  "processCallback h c s =
     then_do (run_callback h (cb_env c) (callback c) s)
       (\<lambda>s1. Inr (if startDecisionTaskFlag c then startDecisionTask (cb_env c) s1 else s1))"

text \<open>
  One turn of the loop of \<open>startMainLoop\<close>. \<open>Continue\<close>: the loop goes on; \<open>Return\<close>:
  it returns; \<open>Wait\<close>: it is in the second \<open>select\<close>, where a callback posted by the
  surroundings is processed (\<open>blocked_select\<close>) or the test timeout panics.
\<close>

datatype loop_step = Continue state | Return state | Wait state

definition mainLoopIteration :: "host \<Rightarrow> env_ref \<Rightarrow> state \<Rightarrow> fault + loop_step" where
  "mainLoopIteration h e s =
     (case callbackChannel s of
        c # cs \<Rightarrow>
          then_do (processCallback h c (s\<lparr>callbackChannel := cs\<rparr>)) (\<lambda>s1. Inr (Continue s1))
      | [] \<Rightarrow>
          then_do (autoFireNextTimer e s)
            (\<lambda>(fired, s1).
               if fired then Inr (Continue s1)
               else if isTestCompleted (envs s1 e) then Inr (Return s1)
               else Inr (Wait s1)))"

definition blocked_select :: "host \<Rightarrow> bool \<Rightarrow> state \<Rightarrow> fault + loop_step" where
  "blocked_select h timed_out s =
     (case callbackChannel s of
        c # cs \<Rightarrow>
          then_do (processCallback h c (s\<lparr>callbackChannel := cs\<rparr>)) (\<lambda>s1. Inr (Continue s1))
      | [] \<Rightarrow> if timed_out then Inl (Panic PanicTestTimeout) else Inr (Wait s))"

text \<open>The loop, run for at most \<open>fuel\<close> turns (\<open>None\<close> when they do not suffice); it
  stops when it returns, waits or fails. A child environment only waits for its done
  channel.\<close>

fun mainLoop :: "nat \<Rightarrow> host \<Rightarrow> env_ref \<Rightarrow> state \<Rightarrow> (fault + loop_step) option" where
  "mainLoop 0 h e s = None"
| "mainLoop (Suc fuel) h e s =
     (case mainLoopIteration h e s of
        Inr (Continue s1) \<Rightarrow> mainLoop fuel h e s1
      | r \<Rightarrow> Some r)"

definition startMainLoop :: "nat \<Rightarrow> host \<Rightarrow> env_ref \<Rightarrow> state \<Rightarrow> (fault + loop_step) option" where
  "startMainLoop fuel h e s =
     (if isChildWorkflow e s
      then Some (Inr (if doneChannel (envs s e) then Return s else Wait s))
      else mainLoop fuel h e s)"

subsection \<open>Calls of the workflow code that mint identifiers\<close>

text \<open>A sequence of calls on an environment that use identifiers: \<open>NewTimer\<close>,
  \<open>ExecuteActivity\<close>, and any other use of the counter (\<open>getStringID(env.nextID())\<close>,
  as \<open>newTestWorkflowEnvironmentForChild\<close> does for the id of a child workflow). The
  run lists, in order, the identifier each call used and what it names.\<close>

datatype env_call =
    call_NewTimer env_ref duration resultHandler
  | call_ExecuteActivity env_ref executeActivityParameters resultHandler
  | call_nextID

datatype id_kind = timer_id | activity_id | other_id

fun run_calls ::
  "host \<Rightarrow> env_call list \<Rightarrow> state \<Rightarrow> fault + ((id_kind \<times> string) list \<times> state)" where
  "run_calls h [] s = Inr ([], s)"
| "run_calls h (call_NewTimer e d cb # cs) s =
     (let (tid, s1) = NewTimer e d cb s in
      then_do (run_calls h cs s1) (\<lambda>(ids, s2). Inr ((timer_id, tid) # ids, s2)))"
| "run_calls h (call_ExecuteActivity e p cb # cs) s =
     then_do (ExecuteActivity h e p cb s)
       (\<lambda>(aid, s1). then_do (run_calls h cs s1)
          (\<lambda>(ids, s2). Inr ((activity_id, aid) # ids, s2)))"
| "run_calls h (call_nextID # cs) s =
     (let (n, s1) = nextID s in
      then_do (run_calls h cs s1) (\<lambda>(ids, s2). Inr ((other_id, getStringID n) # ids, s2)))"

text \<open>A call takes its identifier from the counter, unless it is an \<open>ExecuteActivity\<close>
  whose parameters give an activity id (not nil and not empty).\<close>

fun mints_id :: "env_call \<Rightarrow> bool" where
  "mints_id (call_ExecuteActivity e p cb) =
     (ep_ActivityID p = None \<or> ep_ActivityID p = Some [])"
| "mints_id c = True"

text \<open>What the identifier of a call names.\<close>

fun names :: "env_call \<Rightarrow> id_kind" where
  "names (call_NewTimer e d cb) = timer_id"
| "names (call_ExecuteActivity e p cb) = activity_id"
| "names call_nextID = other_id"

subsection \<open>Mocks\<close>

record mockWrapper =
  mw_name :: string
  mw_fn :: go_value
  isWorkflow :: bool

text \<open>\<open>executeMock\<close>: \<open>mockRet\<close> is the list of values given to \<open>Return\<close>, \<open>None\<close> for
  nil; the result is the pair the function returns.\<close>

definition executeMock ::
  "host \<Rightarrow> mockWrapper \<Rightarrow> bytes \<Rightarrow> go_value option list
     \<Rightarrow> fault + (bytes option \<times> go_value option)" where
  "executeMock h m input mockRet =
     (let fnName = mw_name m; mockRetLen = length mockRet in
      if mockRetLen = 0 then Inl (Panic (PanicMockNoReturns fnName))
      else
        (let fnType = TypeOf (mw_fn m); mockFn = mockRet ! 0 in
         if mockFn \<noteq> None \<and> Kind (TypeOf (the mockFn)) = reflect_Func then
           (if TypeOf (the mockFn) \<noteq> fnType
            then Inl (Panic (PanicMockIncorrectReturnFunction fnName))
            else executor_Execute h (isWorkflow m) fnName (the mockFn) input)
         else
           then_do (NumOut fnType)
             (\<lambda>numOut.
                if mockRetLen \<noteq> numOut
                then Inl (Panic (PanicMockIncorrectNumberOfReturns fnName numOut mockRetLen))
                else
                  then_do
                    (case mockRet ! (mockRetLen - 1) of
                       None \<Rightarrow> Inr None
                     | Some mockErr \<Rightarrow>
                         if implements_error h (TypeOf mockErr) then Inr (Some mockErr)
                         else Inl (Panic (PanicMockIncorrectErrorType fnName)))
                    (\<lambda>retErr.
                       if mockRetLen = 1 then Inr (None, retErr)
                       else if mockRetLen = 2 then
                         then_do (Out fnType 0)
                           (\<lambda>expectedType.
                              case mockRet ! 0 of
                                None \<Rightarrow>
                                  if Kind expectedType \<in> {reflect_Ptr, reflect_Interface,
                                       reflect_Map, reflect_Slice, reflect_Array}
                                  then Inr (None, retErr)
                                  else Inl (Panic (PanicMockIncorrectReturnType fnName))
                              | Some mockResult \<Rightarrow>
                                  if \<not> AssignableTo h (TypeOf mockResult) expectedType
                                  then Inl (Panic (PanicMockIncorrectReturnType fnName))
                                  else
                                    (case encodeArg h mockResult of
                                       Inl encodeErr \<Rightarrow> Inl (Panic (PanicMockEncodeFailed fnName))
                                     | Inr result \<Rightarrow> Inr (Some result, retErr)))
                       else Inl (Panic PanicMockReturnCount)))))"

text \<open>The return specification is a tuple of values when its first element is not a
  function (a function there is called as the implementation instead).\<close>

definition returns_function :: "go_value option list \<Rightarrow> bool" where
  "returns_function mockRet =
     (case mockRet of
        Some v # rest \<Rightarrow> Kind (TypeOf v) = reflect_Func
      | _ \<Rightarrow> False)"

subsection \<open>Operations of the environment\<close>




subsection \<open>A fresh environment and a host for examples\<close>

text \<open>The root environment as \<open>newTestWorkflowEnvironmentImpl\<close> builds it: empty
  registries, the counter at zero, the mock clock at its start, no listener.\<close>

definition new_env :: testWorkflowEnvironmentImpl where
  "new_env =
     \<lparr>parentEnv = None, workflowInfo_ID = ''default-test-workflow-id'',
      workflowInfo_RunID = ''default-test-run-id'', workflowCancelHandler = False,
      signalHandler = False, isTestCompleted = False, testResult = None, testError = None, doneChannel = False\<rparr>"

definition newTestWorkflowEnvironmentImpl :: state where
  "newTestWorkflowEnvironmentImpl =
     \<lparr>envs = (\<lambda>e. new_env), mockClock_now = 0, mockClock_timers = [],
      wallClock_now = 0, wallClock_timers = [], timer_refs = 0, callbackChannel = [],
      counterID = 0, activities = Map.empty, timers = [], childWorkflows = Map.empty,
      runningCount = 0, onActivityStartedListener = False,
      onActivityCompletedListener = False,
      onActivityCanceledListener = False, onActivityHeartbeatListener = False,
      onChildWorkflowStartedListener = False,
      onChildWorkflowCompletedListener = False,
      onChildWorkflowCanceledListener = False, onTimerScheduledListener = False,
      onTimerFiredListener = False, onTimerCancelledListener = False, trace = []\<rparr>"

definition example_convert ::
  "string \<Rightarrow> bytes \<Rightarrow> bytes option \<Rightarrow> error option \<Rightarrow> respond option" where
  "example_convert identity taskToken data err =
     (case err of
        None \<Rightarrow> Some (RespondActivityTaskCompletedRequest (case data of None \<Rightarrow> [] | Some d \<Rightarrow> d))
      | Some ErrActivityResultPending \<Rightarrow> None
      | Some (CanceledError ds) \<Rightarrow> Some (RespondActivityTaskCanceledRequest [])
      | Some er \<Rightarrow> Some (RespondActivityTaskFailedRequest (Some ''failed'') []))"

definition example_host :: host where
  "example_host =
     \<lparr>encodeArg = (\<lambda>v. case v of GoValue t b \<Rightarrow> Inr b),
      constructError = OtherError,
      getErrorDetails = (\<lambda>er. case er of OtherError r d \<Rightarrow> (r, d) | _ \<Rightarrow> (''generic'', [])),
      convertActivityResultToRespondRequest = example_convert,
      registeredActivities = [''activity''],
      AssignableTo = (\<lambda>t u. t = u),
      implements_error = (\<lambda>t. t = RType ''error'' reflect_Ptr []),
      executor_Execute = (\<lambda>w n f i. Inr (None, None))\<rparr>"

text \<open>A child environment (address 1) of the root (address 0), registered with its
  parent, and the state after it has completed with the result \<open>done\<close>.\<close>

definition child_state :: state where
  "child_state =
     newTestWorkflowEnvironmentImpl
       \<lparr>envs := (\<lambda>e. new_env)(1 := new_env\<lparr>parentEnv := Some 0, workflowInfo_ID := ''child''\<rparr>),
        childWorkflows := [''child'' \<mapsto> \<lparr>ch_env = 1, ch_callback = 7\<rparr>]\<rparr>"

definition child_completed_state :: state where
  "child_completed_state =
     newTestWorkflowEnvironmentImpl
       \<lparr>envs := (\<lambda>e. new_env)(1 := new_env\<lparr>parentEnv := Some 0, workflowInfo_ID := ''child'',
                   isTestCompleted := True, testResult := Some ''done'', doneChannel := True\<rparr>),
        callbackChannel := [\<lparr>callback = child_completed_cb 1 \<lparr>ch_env = 1, ch_callback = 7\<rparr>,
                              startDecisionTaskFlag = True, cb_env = 0\<rparr>]\<rparr>"

text \<open>A state with one timer (id \<open>0\<close>, due at mock time 5) on which a wall-clock guard
  is armed, and one running activity; and the same state after the timer is cancelled.\<close>

definition guarded_handle :: testTimerHandle where
  "guarded_handle =
     \<lparr>th_env = 0, th_callback = 3, timer = 0, wallTimer = Some 1, duration = 5,
      mockTimeToFire = 5, wallTimeToFire = 5, timerID = 0\<rparr>"

definition guarded_timer_state :: state where
  "guarded_timer_state =
     newTestWorkflowEnvironmentImpl
       \<lparr>mockClock_timers := [\<lparr>ct_ref = 0, ct_deadline = 5, ct_fn = mock_fire_fn 0 ''0'' 3 True\<rparr>],
        wallClock_timers := [\<lparr>ct_ref = 1, ct_deadline = 5, ct_fn = wall_guard_fn 0 0\<rparr>],
        timer_refs := 2, counterID := 1,
        activities := [''act'' \<mapsto> \<lparr>ah_callback = 4, activityType = ''activity''\<rparr>],
        timers := [(''0'', guarded_handle)], runningCount := 1\<rparr>"

definition cancelled_timer_state :: state where
  "cancelled_timer_state =
     guarded_timer_state
       \<lparr>mockClock_timers := [], timers := [],
        callbackChannel := [\<lparr>callback = cancel_timer_cb guarded_handle ''0'',
                              startDecisionTaskFlag = True, cb_env = 0\<rparr>]\<rparr>"

text \<open>Three timers: \<open>0\<close> due at 7, \<open>2\<close> and \<open>1\<close> both due at 5.\<close>

definition three_timers_state :: state where
  "three_timers_state =
     newTestWorkflowEnvironmentImpl
       \<lparr>timers :=
          [(''0'', guarded_handle\<lparr>wallTimer := None, mockTimeToFire := 7, timerID := 0\<rparr>),
           (''2'', guarded_handle\<lparr>wallTimer := None, mockTimeToFire := 5, timerID := 2\<rparr>),
           (''1'', guarded_handle\<lparr>wallTimer := None, mockTimeToFire := 5, timerID := 1\<rparr>)],
        counterID := 3\<rparr>"

text \<open>The guarded timer seen again by the auto-fire policy: once 2 ns of wall time later
  (the guard armed for wall time 5 is earlier than the new 7), and once with the mock
  clock at 3 and the wall clock at 1 (the guard armed for 5 is later than the new 3).\<close>

definition guard_earlier_state :: state where
  "guard_earlier_state = guarded_timer_state\<lparr>wallClock_now := 2\<rparr>"

definition guard_later_state :: state where
  "guard_later_state = guarded_timer_state\<lparr>mockClock_now := 3, wallClock_now := 1\<rparr>"

definition guard_rearmed_state :: state where
  "guard_rearmed_state =
     guard_later_state
       \<lparr>wallClock_timers := [\<lparr>ct_ref = 2, ct_deadline = 3, ct_fn = wall_guard_fn 0 0\<rparr>],
        timer_refs := 3,
        timers := [(''0'', guarded_handle\<lparr>wallTimeToFire := 3, wallTimer := Some 2\<rparr>)]\<rparr>"

text \<open>The guard of the timer has fired on the wall clock and the activity has finished:
  two callbacks are pending. Then the state after one turn of the main loop, and after
  a second turn.\<close>

definition pending_state :: state where
  "pending_state =
     guarded_timer_state
       \<lparr>wallClock_now := 5, wallClock_timers := [],
        callbackChannel :=
          [\<lparr>callback = fire_guard_cb 0, startDecisionTaskFlag = True, cb_env = 0\<rparr>,
           \<lparr>callback = activity_result_cb ''act''
                         (Some (RespondActivityTaskCompletedRequest ''ok'')) ''activity'',
             startDecisionTaskFlag = False, cb_env = 0\<rparr>],
        runningCount := 0\<rparr>"



text \<open>Two mocked activities: one returning \<open>(string, error)\<close>, one returning
  \<open>(*Result, error)\<close>; and the types of the values used in the examples.\<close>

definition string_type :: rtype where
  "string_type = RType ''string'' reflect_String []"

definition int_type :: rtype where
  "int_type = RType ''int'' reflect_Int []"

definition error_type :: rtype where
  "error_type = RType ''error'' reflect_Ptr []"

definition example_mock :: mockWrapper where
  "example_mock =
     \<lparr>mw_name = ''Activity'',
      mw_fn = GoValue (RType ''func(context.Context, int) (string, error)'' reflect_Func
                         [string_type, RType ''error'' reflect_Interface []]) [],
      isWorkflow = False\<rparr>"

definition example_mock_ptr :: mockWrapper where
  "example_mock_ptr =
     \<lparr>mw_name = ''PtrActivity'',
      mw_fn = GoValue (RType ''func(context.Context) (*Result, error)'' reflect_Func
                         [RType ''*Result'' reflect_Ptr [], RType ''error'' reflect_Interface []]) [],
      isWorkflow = False\<rparr>"

text \<open>A run from a fresh environment: a timer and then an activity for which the
  caller supplies the id \<open>0\<close>.\<close>

definition explicit_id_calls :: "env_call list" where
  "explicit_id_calls =
     [call_NewTimer 0 5 3,
      call_ExecuteActivity 0
        \<lparr>ep_ActivityID = Some ''0'', ep_ActivityType = ''activity'', ep_TaskListName = ''tl''\<rparr> 4]"

text \<open>The same run followed by an activity without an id of its own.\<close>

definition mixed_calls :: "env_call list" where
  "mixed_calls =
     explicit_id_calls @
     [call_ExecuteActivity 0
        \<lparr>ep_ActivityID = None, ep_ActivityType = ''activity'', ep_TaskListName = ''tl''\<rparr> 6]"

section \<open>Properties\<close>

subsection \<open>Basic facts\<close>

lemma postCallback_room:
  "length (callbackChannel s) < callbackChannel_capacity \<Longrightarrow>
   postCallback e cb sdt s =
     Inr (s\<lparr>callbackChannel := callbackChannel s @
              [\<lparr>callback = cb, startDecisionTaskFlag = sdt, cb_env = e\<rparr>]\<rparr>)"
  by (simp add: postCallback_def)

lemma then_do_Inr [simp]: "then_do (Inr a) f = f a"
  by (simp add: then_do_def)

lemma then_do_Inl [simp]: "then_do (Inl x) f = Inl x"
  by (simp add: then_do_def)

lemma then_do_eq_Inr:
  "then_do r f = Inr b \<longleftrightarrow> (\<exists>a. r = Inr a \<and> f a = Inr b)"
  by (cases r) simp_all

subsection \<open>Completing twice\<close>

lemma Complete_completed:
  "isTestCompleted (envs s e) \<Longrightarrow> Complete h e result err s = Inr s"
  by (simp add: Complete_def)

lemma postCallback_envs:
  "postCallback e cb sdt s = Inr s' \<Longrightarrow> envs s' = envs s"
  by (auto simp: postCallback_def split: if_splits)

lemma Complete_sets_flag:
  assumes "Complete h e result err s = Inr s'"
  shows "isTestCompleted (envs s' e)"
proof (cases "isTestCompleted (envs s e)")
  case True
  with assms show ?thesis by (simp add: Complete_def)
next
  case False
  with assms show ?thesis
    by (auto simp: Complete_def Let_def emit_def split: if_splits option.splits error.splits
        dest!: postCallback_envs)
qed

text \<open>
  C10. Once \<open>Complete\<close> has returned for an environment, that environment is completed,
  and any further \<open>Complete\<close> on it, whatever result and error it is given, returns the
  state as it is: the flag, the result, the error, the done channel, the child registry
  and the callback channel are all unchanged.
\<close>

theorem Complete_idempotent:
  assumes "Complete h e result err s = Inr s'"
  shows "isTestCompleted (envs s' e) \<and> Complete h e result' err' s' = Inr s'"
  using Complete_sets_flag [OF assms] by (simp add: Complete_completed)

lemma Complete_child_state:
  "Complete example_host 1 (Some ''done'') None child_state = Inr child_completed_state"
  by (simp add: Complete_def child_state_def child_completed_state_def
      newTestWorkflowEnvironmentImpl_def new_env_def postCallback_def
      callbackChannel_capacity_def Let_def)

theorem Complete_idempotent_witness:
  "Complete example_host 1 (Some ''done'') None child_state = Inr child_completed_state
   \<and> isTestCompleted (envs child_completed_state 1)
   \<and> Complete example_host 1 (Some ''again'') (Some TimeoutError) child_completed_state
       = Inr child_completed_state"
  using Complete_idempotent [OF Complete_child_state] Complete_child_state by simp

subsection \<open>Cancelling timers and activities\<close>

lemma getStringID_0: "getStringID 0 = ''0''"
  by (simp add: getStringID_def show_nat.simps [of 0] digit_char_def)

text \<open>The state with the guarded timer is the one the code reaches from a fresh
  environment by \<open>NewTimer\<close>, \<open>ExecuteActivity\<close> and one \<open>autoFireNextTimer\<close>.\<close>

lemma guarded_timer_state_reached:
  "(let (tid, s1) = NewTimer 0 5 3 newTestWorkflowEnvironmentImpl in
    then_do (ExecuteActivity example_host 0
               \<lparr>ep_ActivityID = Some ''act'', ep_ActivityType = ''activity'',
                ep_TaskListName = ''tl''\<rparr> 4 s1)
      (\<lambda>(aid, s2). autoFireNextTimer 0 s2)) = Inr (False, guarded_timer_state)"
  by (simp add: NewTimer_def newTimer_def nextID_def getStringID_0 mockClock_AfterFunc_def
      newTestWorkflowEnvironmentImpl_def time_Add_def ExecuteActivity_def example_host_def
      autoFireNextTimer_def autoFire_selected_def time_Sub_def maxDuration_def minDuration_def
      wallClock_AfterFunc_def guarded_timer_state_def guarded_handle_def Let_def)

lemma run_cancel_activity_cb:
  "run_callback h e' (cancel_activity_cb ah ai) s' =
     Inr (if onActivityCanceledListener s'
          then emit (onActivityCanceled ai)
                 (emit (handler_called (ah_callback ah) None (Some (CanceledError []))) s')
          else emit (handler_called (ah_callback ah) None (Some (CanceledError []))) s')"
  by (simp add: run_callback_def Let_def emit_def NewCanceledError_def)

lemma run_cancel_timer_cb:
  "run_callback h e' (cancel_timer_cb th tid) s' =
     Inr (if onTimerCancelledListener s'
          then emit (onTimerCancelled tid)
                 (emit (handler_called (th_callback th) None (Some (CanceledError []))) s')
          else emit (handler_called (th_callback th) None (Some (CanceledError []))) s')"
  by (simp add: run_callback_def Let_def emit_def NewCanceledError_def)

lemma guarded_timer_state_facts:
  "length (callbackChannel guarded_timer_state) < callbackChannel_capacity"
  "activities guarded_timer_state ''act'' = Some \<lparr>ah_callback = 4, activityType = ''activity''\<rparr>"
  "map_of (timers guarded_timer_state) ''0'' = Some guarded_handle"
  by (simp_all add: guarded_timer_state_def newTestWorkflowEnvironmentImpl_def
      callbackChannel_capacity_def)

text \<open>
  C2, as the claim states it, fails: the timer \<open>0\<close> of \<open>guarded_timer_state\<close> has the
  wall-clock timer 1 armed as its guard; \<open>RequestCancelTimer\<close> deletes the handle and
  disarms the mock-clock timer, and the wall-clock timer 1 is still armed afterwards.
\<close>

theorem RequestCancelTimer_keeps_wall_timer:
  "map_of (timers guarded_timer_state) ''0'' = Some guarded_handle
   \<and> wallTimer guarded_handle = Some 1
   \<and> map ct_ref (wallClock_timers guarded_timer_state) = [1]
   \<and> RequestCancelTimer 0 ''0'' guarded_timer_state = Inr cancelled_timer_state
   \<and> map ct_ref (wallClock_timers cancelled_timer_state) = [1]"
  by (simp add: guarded_timer_state_def guarded_handle_def cancelled_timer_state_def
      RequestCancelTimer_def postCallback_def callbackChannel_capacity_def Timer_Stop_def
      newTestWorkflowEnvironmentImpl_def AList.delete_eq)

text \<open>
  C2, amended. For a timer id that is in the registry, and a callback channel that is not
  full, \<open>RequestCancelTimer\<close> returns; it deletes the handle, disarms the handle's
  mock-clock timer, leaves the wall-clock timers as they are, and posts exactly one
  callback, with the start-decision-task flag set, on the environment of the handle. The
  body of that callback calls the timer's own callback with a cancelled error (and then
  the timer-cancelled listener, when one is set). The callback of a wall-clock guard for
  the cancelled id finds no handle afterwards and fires nothing.
\<close>

theorem RequestCancelTimer_registered:
  assumes room: "length (callbackChannel s) < callbackChannel_capacity"
      and tim: "map_of (timers s) tid = Some th"
  shows "\<exists>s1. RequestCancelTimer e tid s = Inr s1
           \<and> timers s1 = AList.delete tid (timers s)
           \<and> map_of (timers s1) tid = None
           \<and> mockClock_timers s1 = Timer_Stop (timer th) (mockClock_timers s)
           \<and> find (\<lambda>c. ct_ref c = timer th) (mockClock_timers s1) = None
           \<and> wallClock_timers s1 = wallClock_timers s
           \<and> callbackChannel s1 = callbackChannel s @
                [\<lparr>callback = cancel_timer_cb th tid,
                  startDecisionTaskFlag = True, cb_env = th_env th\<rparr>]
           \<and> activities s1 = activities s \<and> trace s1 = trace s
           \<and> mockClock_now s1 = mockClock_now s
           \<and> run_callback h e' (cancel_timer_cb th tid) s' =
               Inr (if onTimerCancelledListener s'
                    then emit (onTimerCancelled tid)
                           (emit (handler_called (th_callback th) None
                                    (Some (CanceledError []))) s')
                    else emit (handler_called (th_callback th) None
                                 (Some (CanceledError []))) s')
           \<and> (getStringID n = tid \<longrightarrow> run_callback h e' (fire_guard_cb n) s1 = Inr s1)"
proof -
  have "find (\<lambda>c. ct_ref c = timer th) (Timer_Stop (timer th) (mockClock_timers s)) = None"
    by (simp add: Timer_Stop_def find_None_iff)
  then show ?thesis
    using room tim run_cancel_timer_cb [of h e' th tid s']
    by (simp add: RequestCancelTimer_def postCallback_def AList.delete_conv run_callback_def)
qed

theorem RequestCancelTimer_registered_witness:
  "length (callbackChannel guarded_timer_state) < callbackChannel_capacity
   \<and> map_of (timers guarded_timer_state) ''0'' = Some guarded_handle
   \<and> (\<exists>s1. RequestCancelTimer 0 ''0'' guarded_timer_state = Inr s1
         \<and> timers s1 = [] \<and> mockClock_timers s1 = []
         \<and> wallClock_timers s1 = wallClock_timers guarded_timer_state
         \<and> length (callbackChannel s1) = 1
         \<and> run_callback example_host 0 (fire_guard_cb 0) s1 = Inr s1)"
proof -
  from RequestCancelTimer_registered [where e = 0 and h = example_host and e' = 0
      and s' = guarded_timer_state and n = 0,
      OF guarded_timer_state_facts(1) guarded_timer_state_facts(3)]
  obtain s1 where s1: "RequestCancelTimer 0 ''0'' guarded_timer_state = Inr s1"
      "timers s1 = AList.delete ''0'' (timers guarded_timer_state)"
      "mockClock_timers s1 = Timer_Stop (timer guarded_handle) (mockClock_timers guarded_timer_state)"
      "wallClock_timers s1 = wallClock_timers guarded_timer_state"
      "callbackChannel s1 = callbackChannel guarded_timer_state @
         [\<lparr>callback = cancel_timer_cb guarded_handle ''0'',
           startDecisionTaskFlag = True, cb_env = th_env guarded_handle\<rparr>]"
      "getStringID 0 = ''0'' \<longrightarrow> run_callback example_host 0 (fire_guard_cb 0) s1 = Inr s1"
    by blast
  have "timers s1 = []" "mockClock_timers s1 = []" "length (callbackChannel s1) = 1"
    using s1(2,3,5)
    by (simp_all add: guarded_timer_state_def guarded_handle_def Timer_Stop_def
        newTestWorkflowEnvironmentImpl_def AList.delete_eq)
  then show ?thesis
    using s1(1,4,6) guarded_timer_state_facts getStringID_0 by simp
qed

text \<open>
  C5. With room on the callback channel: for an activity id that is registered, and
  likewise for a timer id that is registered, the first cancel removes the handle and
  posts one callback, and the second cancel returns the state unchanged, posting
  nothing; the body of the posted callback calls the handle's callback once, with a
  cancelled error.
\<close>

theorem cancel_twice_one_callback:
  assumes room: "length (callbackChannel s) < callbackChannel_capacity"
  shows "(activities s aid = Some ah \<longrightarrow>
           (\<exists>s1. RequestCancelActivity e aid s = Inr s1
              \<and> activities s1 = (activities s)(aid := None)
              \<and> callbackChannel s1 = callbackChannel s @
                   [\<lparr>callback = cancel_activity_cb ah
                                   (getActivityInfo e aid (activityType ah) s),
                     startDecisionTaskFlag = True, cb_env = e\<rparr>]
              \<and> RequestCancelActivity e aid s1 = Inr s1))
       \<and> (map_of (timers s) tid = Some th \<longrightarrow>
           (\<exists>s1. RequestCancelTimer e tid s = Inr s1
              \<and> timers s1 = AList.delete tid (timers s)
              \<and> callbackChannel s1 = callbackChannel s @
                   [\<lparr>callback = cancel_timer_cb th tid,
                     startDecisionTaskFlag = True, cb_env = th_env th\<rparr>]
              \<and> RequestCancelTimer e tid s1 = Inr s1))
       \<and> run_callback h e' (cancel_activity_cb ah ai) s' =
           Inr (if onActivityCanceledListener s'
                then emit (onActivityCanceled ai)
                       (emit (handler_called (ah_callback ah) None (Some (CanceledError []))) s')
                else emit (handler_called (ah_callback ah) None (Some (CanceledError []))) s')
       \<and> run_callback h e' (cancel_timer_cb th tid) s' =
           Inr (if onTimerCancelledListener s'
                then emit (onTimerCancelled tid)
                       (emit (handler_called (th_callback th) None (Some (CanceledError []))) s')
                else emit (handler_called (th_callback th) None (Some (CanceledError []))) s')"
proof -
  have a: "activities s aid = Some ah \<longrightarrow>
           (\<exists>s1. RequestCancelActivity e aid s = Inr s1
              \<and> activities s1 = (activities s)(aid := None)
              \<and> callbackChannel s1 = callbackChannel s @
                   [\<lparr>callback = cancel_activity_cb ah
                                   (getActivityInfo e aid (activityType ah) s),
                     startDecisionTaskFlag = True, cb_env = e\<rparr>]
              \<and> RequestCancelActivity e aid s1 = Inr s1)"
    using room by (simp add: RequestCancelActivity_def postCallback_def Let_def)
  have t: "map_of (timers s) tid = Some th \<longrightarrow>
           (\<exists>s1. RequestCancelTimer e tid s = Inr s1
              \<and> timers s1 = AList.delete tid (timers s)
              \<and> callbackChannel s1 = callbackChannel s @
                   [\<lparr>callback = cancel_timer_cb th tid,
                     startDecisionTaskFlag = True, cb_env = th_env th\<rparr>]
              \<and> RequestCancelTimer e tid s1 = Inr s1)"
    using room by (simp add: RequestCancelTimer_def postCallback_def AList.delete_conv)
  show ?thesis using a t run_cancel_activity_cb run_cancel_timer_cb by blast
qed

theorem cancel_twice_one_callback_witness:
  "length (callbackChannel guarded_timer_state) < callbackChannel_capacity
   \<and> activities guarded_timer_state ''act'' = Some \<lparr>ah_callback = 4, activityType = ''activity''\<rparr>
   \<and> map_of (timers guarded_timer_state) ''0'' = Some guarded_handle
   \<and> (\<exists>s1. RequestCancelActivity 0 ''act'' guarded_timer_state = Inr s1
         \<and> length (callbackChannel s1) = 1
         \<and> RequestCancelActivity 0 ''act'' s1 = Inr s1)
   \<and> (\<exists>s1. RequestCancelTimer 0 ''0'' guarded_timer_state = Inr s1
         \<and> length (callbackChannel s1) = 1
         \<and> RequestCancelTimer 0 ''0'' s1 = Inr s1)"
proof -
  have len: "length (callbackChannel guarded_timer_state) = 0"
    by (simp add: guarded_timer_state_def newTestWorkflowEnvironmentImpl_def)
  from cancel_twice_one_callback [where e = 0 and h = example_host and e' = 0
      and s' = guarded_timer_state
      and ai = "getActivityInfo 0 ''act'' ''activity'' guarded_timer_state"
      and aid = "''act''" and ah = "\<lparr>ah_callback = 4, activityType = ''activity''\<rparr>"
      and tid = "''0''" and th = guarded_handle,
      OF guarded_timer_state_facts(1)] guarded_timer_state_facts(2,3)
  have "(\<exists>s1. RequestCancelActivity 0 ''act'' guarded_timer_state = Inr s1
         \<and> length (callbackChannel s1) = 1
         \<and> RequestCancelActivity 0 ''act'' s1 = Inr s1)
   \<and> (\<exists>s1. RequestCancelTimer 0 ''0'' guarded_timer_state = Inr s1
         \<and> length (callbackChannel s1) = 1
         \<and> RequestCancelTimer 0 ''0'' s1 = Inr s1)"
    using len by auto
  then show ?thesis using guarded_timer_state_facts by simp
qed

subsection \<open>The auto-fire policy\<close>

lemma find_next_Some_min:
  "find_next (Some (k, n)) xs = Some (k', m) \<Longrightarrow>
     ((k', m) = (k, n) \<or> (k', m) \<in> set xs) \<and>
     (mockTimeToFire m < mockTimeToFire n \<or>
        (mockTimeToFire m = mockTimeToFire n \<and> sint (timerID m) \<le> sint (timerID n))) \<and>
     (\<forall>(k'', t) \<in> set xs. mockTimeToFire m < mockTimeToFire t \<or>
        (mockTimeToFire m = mockTimeToFire t \<and> sint (timerID m) \<le> sint (timerID t)))"
proof (induction xs arbitrary: k n)
  case Nil
  then show ?case by simp
next
  case (Cons kt xs)
  obtain k2 t where kt: "kt = (k2, t)" by (cases kt)
  show ?case
  proof (cases "mockTimeToFire t < mockTimeToFire n \<or>
         (mockTimeToFire t = mockTimeToFire n \<and> sint (timerID t) < sint (timerID n))")
    case True
    with Cons.prems kt have "find_next (Some (k2, t)) xs = Some (k', m)" by simp
    from Cons.IH [OF this] True kt show ?thesis by auto
  next
    case False
    with Cons.prems kt have "find_next (Some (k, n)) xs = Some (k', m)" by simp
    from Cons.IH [OF this] False kt show ?thesis by auto
  qed
qed

lemma find_next_Some_ex: "\<exists>k' m. find_next (Some (k, n)) xs = Some (k', m)"
  by (induction xs arbitrary: k n) auto

text \<open>
  C3. When the timer registry is not empty, \<open>autoFireNextTimer\<close> goes on with a handle
  of the registry that no other handle precedes: every handle of the registry has a
  later mock time to fire, or the same mock time to fire and an integer id that is not
  smaller. This holds for every order in which the registry is traversed.
\<close>

theorem autoFireNextTimer_selects_earliest:
  assumes "timers s \<noteq> []"
  shows "\<exists>k n. find_next None (timers s) = Some (k, n)
           \<and> autoFireNextTimer e s = autoFire_selected e k n s
           \<and> (k, n) \<in> set (timers s)
           \<and> (\<forall>(k', t) \<in> set (timers s).
                 mockTimeToFire n < mockTimeToFire t \<or>
                 (mockTimeToFire n = mockTimeToFire t \<and> sint (timerID n) \<le> sint (timerID t)))"
proof -
  from assms obtain k0 n0 rest where ts: "timers s = (k0, n0) # rest"
    by (cases "timers s") auto
  obtain k m where sel: "find_next (Some (k0, n0)) rest = Some (k, m)"
    using find_next_Some_ex by blast
  from find_next_Some_min [OF sel] ts sel show ?thesis
    by (auto simp: autoFireNextTimer_def)
qed

theorem autoFireNextTimer_selects_earliest_witness:
  "timers three_timers_state \<noteq> []
   \<and> (\<exists>k n. find_next None (timers three_timers_state) = Some (k, n)
          \<and> autoFireNextTimer 0 three_timers_state = autoFire_selected 0 k n three_timers_state
          \<and> k = ''1'' \<and> timerID n = 1 \<and> mockTimeToFire n = 5)"
proof -
  have ne: "timers three_timers_state \<noteq> []"
    by (simp add: three_timers_state_def)
  have sel: "find_next None (timers three_timers_state) =
      Some (''1'', guarded_handle\<lparr>wallTimer := None, mockTimeToFire := 5, timerID := 1\<rparr>)"
    by (simp add: three_timers_state_def guarded_handle_def)
  from autoFireNextTimer_selects_earliest [OF ne, of 0] sel ne show ?thesis
    by auto
qed

text \<open>
  C9. The running count is not zero (in particular when it is positive) and the timer
  that the policy selects has a wall-clock guard \<open>w\<close>. If the guard's wall time to fire
  is earlier than the newly computed one, the state stays as it is: the guard is left
  and no guard is armed. Otherwise (in particular if it is later) the guard \<open>w\<close> is
  stopped, a new guard is armed for the newly computed wall time, and the handle records
  the new guard and its time. In both cases the policy reports "not advanced".
\<close>

theorem autoFireNextTimer_guard:
  assumes run: "runningCount s \<noteq> 0"
      and sel: "find_next None (timers s) = Some (k, n)"
      and armed: "wallTimer n = Some w"
  shows "autoFireNextTimer e s =
           Inr (False,
             if wallTimeToFire n <
                  time_Add (wallClock_now s) (time_Sub (mockTimeToFire n) (mockClock_now s))
             then s
             else s\<lparr>wallClock_timers := Timer_Stop w (wallClock_timers s) @
                       [\<lparr>ct_ref = timer_refs s,
                         ct_deadline = time_Add (wallClock_now s)
                                         (time_Sub (mockTimeToFire n) (mockClock_now s)),
                         ct_fn = wall_guard_fn (th_env n) (timerID n)\<rparr>],
                    timer_refs := timer_refs s + 1,
                    timers := AList.update k
                       (n\<lparr>wallTimeToFire := time_Add (wallClock_now s)
                                               (time_Sub (mockTimeToFire n) (mockClock_now s)),
                          wallTimer := Some (timer_refs s)\<rparr>) (timers s)\<rparr>)"
proof -
  have "timers s \<noteq> []" using sel by auto
  then show ?thesis using run sel armed
    by (simp add: autoFireNextTimer_def autoFire_selected_def Let_def wallClock_AfterFunc_def)
qed

lemma guard_states_facts:
  "runningCount guard_earlier_state \<noteq> 0"
  "find_next None (timers guard_earlier_state) = Some (''0'', guarded_handle)"
  "runningCount guard_later_state \<noteq> 0"
  "find_next None (timers guard_later_state) = Some (''0'', guarded_handle)"
  "wallTimer guarded_handle = Some 1"
  by (simp_all add: guard_earlier_state_def guard_later_state_def guarded_timer_state_def
      guarded_handle_def newTestWorkflowEnvironmentImpl_def)

theorem autoFireNextTimer_guard_witness:
  "runningCount guard_earlier_state \<noteq> 0
   \<and> find_next None (timers guard_earlier_state) = Some (''0'', guarded_handle)
   \<and> runningCount guard_later_state \<noteq> 0
   \<and> find_next None (timers guard_later_state) = Some (''0'', guarded_handle)
   \<and> wallTimer guarded_handle = Some 1
   \<and> autoFireNextTimer 0 guard_earlier_state = Inr (False, guard_earlier_state)
   \<and> autoFireNextTimer 0 guard_later_state = Inr (False, guard_rearmed_state)"
proof -
  have a: "autoFireNextTimer 0 guard_earlier_state = Inr (False, guard_earlier_state)"
    using autoFireNextTimer_guard [OF guard_states_facts(1) guard_states_facts(2)
        guard_states_facts(5), of 0]
    by (simp add: guard_earlier_state_def guarded_timer_state_def guarded_handle_def
        newTestWorkflowEnvironmentImpl_def time_Add_def time_Sub_def maxDuration_def
        minDuration_def)
  have b: "autoFireNextTimer 0 guard_later_state = Inr (False, guard_rearmed_state)"
    using autoFireNextTimer_guard [OF guard_states_facts(3) guard_states_facts(4)
        guard_states_facts(5), of 0]
    by (simp add: guard_later_state_def guard_rearmed_state_def guarded_timer_state_def
        guarded_handle_def newTestWorkflowEnvironmentImpl_def time_Add_def time_Sub_def
        maxDuration_def minDuration_def Timer_Stop_def)
  show ?thesis using a b guard_states_facts by simp
qed

subsection \<open>What recording an event leaves as it is\<close>

lemma emit_frame [simp]:
  "wallClock_timers (emit ev s) = wallClock_timers s"
  "callbackChannel (emit ev s) = callbackChannel s"
  "mockClock_now (emit ev s) = mockClock_now s"
  "timers (emit ev s) = timers s"
  "activities (emit ev s) = activities s"
  "envs (emit ev s) = envs s"
  "onActivityCompletedListener (emit ev s) = onActivityCompletedListener s"
  "trace (emit ev s) = trace s @ [ev]"
  by (simp_all add: emit_def)

lemma startDecisionTask_frame [simp]:
  "wallClock_timers (startDecisionTask e s) = wallClock_timers s"
  "callbackChannel (startDecisionTask e s) = callbackChannel s"
  "mockClock_now (startDecisionTask e s) = mockClock_now s"
  "timers (startDecisionTask e s) = timers s"
  "activities (startDecisionTask e s) = activities s"
  by (simp_all add: startDecisionTask_def)

subsection \<open>Heartbeats\<close>

text \<open>
  C1, as the claim states it, fails: the token \<open>gone\<close> names no registered activity;
  \<open>mockHeartbeatFn\<close> computes the entity-not-exists error, and the heartbeat call of the
  mocked service returns a nil error to its caller all the same.
\<close>

theorem heartbeat_error_not_returned:
  "activities guarded_timer_state ''gone'' = None
   \<and> mockHeartbeatFn 0 ''gone'' ''details'' guarded_timer_state
       = Inr (Some EntityNotExistsError, guarded_timer_state)
   \<and> RecordActivityTaskHeartbeat 0 ''gone'' ''details'' guarded_timer_state
       = Inr ((False, None), guarded_timer_state)"
  by (simp add: guarded_timer_state_def newTestWorkflowEnvironmentImpl_def
      mockHeartbeatFn_def RecordActivityTaskHeartbeat_def)

text \<open>
  C1, amended. For a task token that names no registered activity, \<open>mockHeartbeatFn\<close>
  returns the entity-not-exists error and changes nothing; for a token whose activity is
  registered (and a callback channel that is not full) it returns no error and posts
  exactly one callback, without the start-decision-task flag, whose body calls the
  heartbeat listener when one is set. In both cases the heartbeat call of the mocked
  service returns a response with \<open>CancelRequested\<close> false and a nil error.
\<close>

theorem heartbeat_routing:
  "(activities s tok = None \<longrightarrow>
      mockHeartbeatFn e tok d s = Inr (Some EntityNotExistsError, s)
      \<and> RecordActivityTaskHeartbeat e tok d s = Inr ((False, None), s))
   \<and> (activities s tok = Some ah \<and> length (callbackChannel s) < callbackChannel_capacity \<longrightarrow>
      mockHeartbeatFn e tok d s =
        Inr (None, s\<lparr>callbackChannel := callbackChannel s @
               [\<lparr>callback = heartbeat_cb (getActivityInfo e tok (activityType ah) s) d,
                 startDecisionTaskFlag = False, cb_env = e\<rparr>]\<rparr>)
      \<and> RecordActivityTaskHeartbeat e tok d s =
        Inr ((False, None), s\<lparr>callbackChannel := callbackChannel s @
               [\<lparr>callback = heartbeat_cb (getActivityInfo e tok (activityType ah) s) d,
                 startDecisionTaskFlag = False, cb_env = e\<rparr>]\<rparr>))
   \<and> run_callback h e' (heartbeat_cb ai d) s' =
        Inr (if onActivityHeartbeatListener s' then emit (onActivityHeartbeat ai d) s' else s')"
  by (simp add: mockHeartbeatFn_def RecordActivityTaskHeartbeat_def postCallback_def Let_def
      run_callback_def)

theorem heartbeat_routing_witness:
  "activities guarded_timer_state ''gone'' = None
   \<and> RecordActivityTaskHeartbeat 0 ''gone'' ''details'' guarded_timer_state
       = Inr ((False, None), guarded_timer_state)
   \<and> activities guarded_timer_state ''act'' = Some \<lparr>ah_callback = 4, activityType = ''activity''\<rparr>
   \<and> length (callbackChannel guarded_timer_state) < callbackChannel_capacity
   \<and> mockHeartbeatFn 0 ''act'' ''details'' guarded_timer_state =
        Inr (None, guarded_timer_state\<lparr>callbackChannel :=
               [\<lparr>callback = heartbeat_cb
                    \<lparr>ActivityID = ''act'', ActivityType = ''activity'', TaskToken = ''act'',
                     WorkflowExecution = (''default-test-workflow-id'', ''default-test-run-id'')\<rparr>
                    ''details'',
                 startDecisionTaskFlag = False, cb_env = 0\<rparr>]\<rparr>)"
proof -
  have g: "activities guarded_timer_state ''gone'' = None"
    by (simp add: guarded_timer_state_def newTestWorkflowEnvironmentImpl_def)
  have i: "getActivityInfo 0 ''act'' ''activity'' guarded_timer_state =
             \<lparr>ActivityID = ''act'', ActivityType = ''activity'', TaskToken = ''act'',
              WorkflowExecution = (''default-test-workflow-id'', ''default-test-run-id'')\<rparr>"
    by (simp add: getActivityInfo_def guarded_timer_state_def
        newTestWorkflowEnvironmentImpl_def new_env_def)
  have c: "callbackChannel guarded_timer_state = []"
    by (simp add: guarded_timer_state_def newTestWorkflowEnvironmentImpl_def)
  from heartbeat_routing [where s = guarded_timer_state and tok = "''gone''" and e = 0
      and d = "''details''"]
    heartbeat_routing [where s = guarded_timer_state and tok = "''act''" and e = 0
      and d = "''details''" and ah = "\<lparr>ah_callback = 4, activityType = ''activity''\<rparr>"]
    g i c guarded_timer_state_facts
  show ?thesis by simp
qed

subsection \<open>Pending activities\<close>

lemma run_activity_result_cb:
  "run_callback h e (activity_result_cb aid r ty) s = handleActivityResult h e aid r ty s"
  by (simp add: run_callback_def)

lemma handleActivityResult_pending:
  "handleActivityResult h e aid None ty s =
     Inr (if onActivityCompletedListener s
          then emit (onActivityCompleted (getActivityInfo e aid ty s) None
                       (Some ErrActivityResultPending)) s
          else s)"
  by (simp add: handleActivityResult_def Let_def)

lemma handleActivityResult_registered:
  assumes "activities s aid = Some ah" and "translate_respond h request = Inr (blob, er)"
  shows "handleActivityResult h e aid (Some request) ty s =
           Inr (startDecisionTask e
                  (let s3 = emit (handler_called (ah_callback ah) blob er)
                              (s\<lparr>activities := (activities s)(aid := None)\<rparr>)
                   in if onActivityCompletedListener s
                      then emit (onActivityCompleted (getActivityInfo e aid ty s) blob er) s3
                      else s3))"
  using assms by (simp add: handleActivityResult_def Let_def getActivityInfo_def emit_def)

text \<open>
  C7. An activity \<open>aid\<close> is registered. When its background execution hands over the nil
  result, the handle stays in the registry, nothing is posted, and the trace gains at
  most the call of the activity-completed listener with the pending error: the stored
  callback is not called. A later \<open>CompleteActivity\<close> with the activity's id as task
  token (room on the channel, a result that encodes, a conversion that gives a respond
  request of a supported type) posts one callback without the start-decision-task flag.
  Processing that callback is processing the callback that the background execution
  posts for the same respond request: the handle is removed, the stored callback is
  called with the translated result, then the listener when set, and the workflow
  definition is told that a decision task started unless the test has completed.
\<close>

theorem pending_then_CompleteActivity:
  assumes reg: "activities s aid = Some ah"
      and room: "length (callbackChannel s) < callbackChannel_capacity"
      and enc: "encode_result h result = Inr data"
      and conv: "convertActivityResultToRespondRequest h ''test-identity'' aid data err
                   = Some request"
      and tr: "translate_respond h request = Inr (blob, er)"
  shows "(\<exists>s1. handleActivityResult h e aid None (activityType ah) s = Inr s1
            \<and> activities s1 = activities s \<and> activities s1 aid = Some ah
            \<and> callbackChannel s1 = callbackChannel s
            \<and> trace s1 = trace s @
                 (if onActivityCompletedListener s
                  then [onActivityCompleted (getActivityInfo e aid (activityType ah) s) None
                          (Some ErrActivityResultPending)]
                  else []))
       \<and> CompleteActivity h e (Some aid) result err s =
           Inr (None, s\<lparr>callbackChannel := callbackChannel s @
                  [\<lparr>callback = complete_activity_cb aid aid data err,
                    startDecisionTaskFlag = False, cb_env = e\<rparr>]\<rparr>)
       \<and> processCallback h \<lparr>callback = complete_activity_cb aid aid data err,
                               startDecisionTaskFlag = False, cb_env = e\<rparr> s
           = processCallback h \<lparr>callback = activity_result_cb aid (Some request) (activityType ah),
                                 startDecisionTaskFlag = False, cb_env = e\<rparr> s
       \<and> (\<exists>s3. processCallback h \<lparr>callback = complete_activity_cb aid aid data err,
                                     startDecisionTaskFlag = False, cb_env = e\<rparr> s = Inr s3
            \<and> activities s3 = (activities s)(aid := None)
            \<and> callbackChannel s3 = callbackChannel s
            \<and> trace s3 = trace s @ [handler_called (ah_callback ah) blob er] @
                 (if onActivityCompletedListener s
                  then [onActivityCompleted (getActivityInfo e aid (activityType ah) s) blob er]
                  else []) @
                 (if isTestCompleted (envs s e) then [] else [OnDecisionTaskStarted e]))"
proof -
  have p: "\<exists>s1. handleActivityResult h e aid None (activityType ah) s = Inr s1
            \<and> activities s1 = activities s \<and> activities s1 aid = Some ah
            \<and> callbackChannel s1 = callbackChannel s
            \<and> trace s1 = trace s @
                 (if onActivityCompletedListener s
                  then [onActivityCompleted (getActivityInfo e aid (activityType ah) s) None
                          (Some ErrActivityResultPending)]
                  else [])"
    using reg by (simp add: handleActivityResult_pending)
  have c: "CompleteActivity h e (Some aid) result err s =
           Inr (None, s\<lparr>callbackChannel := callbackChannel s @
                  [\<lparr>callback = complete_activity_cb aid aid data err,
                    startDecisionTaskFlag = False, cb_env = e\<rparr>]\<rparr>)"
    using room enc by (simp add: CompleteActivity_def postCallback_def)
  have r: "run_callback h e (complete_activity_cb aid aid data err) s =
           handleActivityResult h e aid (Some request) (activityType ah) s"
    using reg conv by (simp add: run_callback_def)
  have same: "processCallback h \<lparr>callback = complete_activity_cb aid aid data err,
                               startDecisionTaskFlag = False, cb_env = e\<rparr> s
           = processCallback h \<lparr>callback = activity_result_cb aid (Some request) (activityType ah),
                                 startDecisionTaskFlag = False, cb_env = e\<rparr> s"
    using r by (simp add: processCallback_def run_activity_result_cb)
  have d: "\<exists>s3. processCallback h \<lparr>callback = complete_activity_cb aid aid data err,
                                     startDecisionTaskFlag = False, cb_env = e\<rparr> s = Inr s3
            \<and> activities s3 = (activities s)(aid := None)
            \<and> callbackChannel s3 = callbackChannel s
            \<and> trace s3 = trace s @ [handler_called (ah_callback ah) blob er] @
                 (if onActivityCompletedListener s
                  then [onActivityCompleted (getActivityInfo e aid (activityType ah) s) blob er]
                  else []) @
                 (if isTestCompleted (envs s e) then [] else [OnDecisionTaskStarted e])"
    using r handleActivityResult_registered [OF reg tr, of e "activityType ah"]
    by (simp add: processCallback_def Let_def startDecisionTask_def)
  show ?thesis using p c same d by blast
qed

theorem pending_then_CompleteActivity_witness:
  "activities guarded_timer_state ''act'' = Some \<lparr>ah_callback = 4, activityType = ''activity''\<rparr>
   \<and> length (callbackChannel guarded_timer_state) < callbackChannel_capacity
   \<and> encode_result example_host (Some (GoValue (RType ''string'' reflect_String []) ''ok''))
       = Inr (Some ''ok'')
   \<and> convertActivityResultToRespondRequest example_host ''test-identity'' ''act'' (Some ''ok'') None
       = Some (RespondActivityTaskCompletedRequest ''ok'')
   \<and> translate_respond example_host (RespondActivityTaskCompletedRequest ''ok'')
       = Inr (Some ''ok'', None)
   \<and> handleActivityResult example_host 0 ''act'' None ''activity'' guarded_timer_state
       = Inr guarded_timer_state
   \<and> (\<exists>s3. processCallback example_host
               \<lparr>callback = complete_activity_cb ''act'' ''act'' (Some ''ok'') None,
                startDecisionTaskFlag = False, cb_env = 0\<rparr> guarded_timer_state = Inr s3
          \<and> activities s3 ''act'' = None
          \<and> trace s3 = [handler_called 4 (Some ''ok'') None, OnDecisionTaskStarted 0])"
proof -
  have enc: "encode_result example_host (Some (GoValue (RType ''string'' reflect_String []) ''ok''))
       = Inr (Some ''ok'')"
    by (simp add: encode_result_def example_host_def)
  have conv: "convertActivityResultToRespondRequest example_host ''test-identity'' ''act''
                (Some ''ok'') None = Some (RespondActivityTaskCompletedRequest ''ok'')"
    by (simp add: example_host_def example_convert_def)
  have tr: "translate_respond example_host (RespondActivityTaskCompletedRequest ''ok'')
       = Inr (Some ''ok'', None)"
    by (simp add: translate_respond_def)
  have st: "onActivityCompletedListener guarded_timer_state = False"
      "trace guarded_timer_state = []" "isTestCompleted (envs guarded_timer_state 0) = False"
    by (simp_all add: guarded_timer_state_def newTestWorkflowEnvironmentImpl_def new_env_def)
  note inst = pending_then_CompleteActivity [where e = 0,
      OF guarded_timer_state_facts(2) guarded_timer_state_facts(1) enc conv tr]
  from inst [THEN conjunct2, THEN conjunct2, THEN conjunct2]
  obtain s3 where s3:
    "processCallback example_host
       \<lparr>callback = complete_activity_cb ''act'' ''act'' (Some ''ok'') None,
        startDecisionTaskFlag = False, cb_env = 0\<rparr> guarded_timer_state = Inr s3"
    "activities s3 = (activities guarded_timer_state)(''act'' := None)"
    "trace s3 = trace guarded_timer_state @ [handler_called 4 (Some ''ok'') None] @
       (if onActivityCompletedListener guarded_timer_state
        then [onActivityCompleted
                (getActivityInfo 0 ''act'' ''activity'' guarded_timer_state) (Some ''ok'') None]
        else []) @
       (if isTestCompleted (envs guarded_timer_state 0) then [] else [OnDecisionTaskStarted 0])"
    by auto
  have "activities s3 ''act'' = None"
    "trace s3 = [handler_called 4 (Some ''ok'') None, OnDecisionTaskStarted 0]"
    using s3(2,3) st by simp_all
  with s3(1) have "\<exists>s3. processCallback example_host
               \<lparr>callback = complete_activity_cb ''act'' ''act'' (Some ''ok'') None,
                startDecisionTaskFlag = False, cb_env = 0\<rparr> guarded_timer_state = Inr s3
          \<and> activities s3 ''act'' = None
          \<and> trace s3 = [handler_called 4 (Some ''ok'') None, OnDecisionTaskStarted 0]"
    by blast
  moreover have "handleActivityResult example_host 0 ''act'' None ''activity'' guarded_timer_state
       = Inr guarded_timer_state"
    using st by (simp add: handleActivityResult_pending)
  ultimately show ?thesis
    using enc conv tr guarded_timer_state_facts by simp
qed

subsection \<open>Validation of a mock's return values\<close>

lemma executeMock_tuple:
  assumes tuple: "\<not> returns_function mockRet"
      and fn: "NumOut (TypeOf (mw_fn m)) = Inr numOut"
      and ne: "mockRet \<noteq> []"
  shows "executeMock h m input mockRet =
     (if length mockRet \<noteq> numOut
      then Inl (Panic (PanicMockIncorrectNumberOfReturns (mw_name m) numOut (length mockRet)))
      else
        then_do
          (case mockRet ! (length mockRet - 1) of
             None \<Rightarrow> Inr None
           | Some mockErr \<Rightarrow>
               if implements_error h (TypeOf mockErr) then Inr (Some mockErr)
               else Inl (Panic (PanicMockIncorrectErrorType (mw_name m))))
          (\<lambda>retErr.
             if length mockRet = 1 then Inr (None, retErr)
             else if length mockRet = 2 then
               then_do (Out (TypeOf (mw_fn m)) 0)
                 (\<lambda>expectedType.
                    case mockRet ! 0 of
                      None \<Rightarrow>
                        if Kind expectedType \<in> {reflect_Ptr, reflect_Interface,
                             reflect_Map, reflect_Slice, reflect_Array}
                        then Inr (None, retErr)
                        else Inl (Panic (PanicMockIncorrectReturnType (mw_name m)))
                    | Some mockResult \<Rightarrow>
                        if \<not> AssignableTo h (TypeOf mockResult) expectedType
                        then Inl (Panic (PanicMockIncorrectReturnType (mw_name m)))
                        else
                          (case encodeArg h mockResult of
                             Inl encodeErr \<Rightarrow> Inl (Panic (PanicMockEncodeFailed (mw_name m)))
                           | Inr result \<Rightarrow> Inr (Some result, retErr)))
             else Inl (Panic PanicMockReturnCount)))"
proof -
  from ne obtain x xs where c: "mockRet = x # xs" by (cases mockRet) auto
  show ?thesis
  proof (cases x)
    case None
    with fn show ?thesis
      unfolding c executeMock_def Let_def by simp
  next
    case (Some v)
    with tuple c have "Kind (TypeOf v) \<noteq> reflect_Func"
      by (simp add: returns_function_def)
    with fn Some show ?thesis
      unfolding c executeMock_def Let_def by simp
  qed
qed

text \<open>
  C8. The return specification is a tuple of values (its first element is not a function;
  a function there is the other form of a return specification and is called as the
  implementation), and the mocked function has \<open>numOut\<close> results. Then: a tuple whose
  length is not \<open>numOut\<close> panics, with the message that names the function, the
  expected and the actual count (an empty tuple with the message that the mock has no
  returns); a pair whose first element is not nil and not assignable to the first result
  type panics; a pair whose first element is nil returns normally only if the first
  result type is a pointer, interface, map, slice or array (and then with the error of
  the second element, which must be nil or an error), and panics otherwise.
\<close>

theorem executeMock_validation:
  assumes tuple: "\<not> returns_function mockRet"
      and fn: "NumOut (TypeOf (mw_fn m)) = Inr numOut"
  shows "(length mockRet \<noteq> numOut \<longrightarrow>
            executeMock h m input mockRet =
              Inl (Panic (if mockRet = [] then PanicMockNoReturns (mw_name m)
                          else PanicMockIncorrectNumberOfReturns (mw_name m) numOut
                                 (length mockRet))))
       \<and> (\<forall>v e2 t0. mockRet = [Some v, e2] \<and> Out (TypeOf (mw_fn m)) 0 = Inr t0
              \<and> \<not> AssignableTo h (TypeOf v) t0 \<longrightarrow>
            (\<exists>p. executeMock h m input mockRet = Inl (Panic p)))
       \<and> (\<forall>e2 t0. mockRet = [None, e2] \<and> numOut = 2 \<and> Out (TypeOf (mw_fn m)) 0 = Inr t0 \<longrightarrow>
            (if Kind t0 \<in> {reflect_Ptr, reflect_Interface, reflect_Map, reflect_Slice,
                            reflect_Array}
             then executeMock h m input mockRet =
                    (case e2 of
                       None \<Rightarrow> Inr (None, None)
                     | Some ev \<Rightarrow>
                         if implements_error h (TypeOf ev) then Inr (None, Some ev)
                         else Inl (Panic (PanicMockIncorrectErrorType (mw_name m))))
             else (\<exists>p. executeMock h m input mockRet = Inl (Panic p))))"
proof (intro conjI allI impI)
  assume "length mockRet \<noteq> numOut"
  then show "executeMock h m input mockRet =
              Inl (Panic (if mockRet = [] then PanicMockNoReturns (mw_name m)
                          else PanicMockIncorrectNumberOfReturns (mw_name m) numOut
                                 (length mockRet)))"
    using executeMock_tuple [OF tuple fn]
    by (cases "mockRet = []") (simp_all add: executeMock_def)
next
  fix v e2 t0
  assume a: "mockRet = [Some v, e2] \<and> Out (TypeOf (mw_fn m)) 0 = Inr t0
              \<and> \<not> AssignableTo h (TypeOf v) t0"
  then have ne: "mockRet \<noteq> []" by auto
  show "\<exists>p. executeMock h m input mockRet = Inl (Panic p)"
    using executeMock_tuple [OF tuple fn ne, of h input] a
    by (cases e2) (auto simp del: One_nat_def)
next
  fix e2 t0
  assume a: "mockRet = [None, e2] \<and> numOut = 2 \<and> Out (TypeOf (mw_fn m)) 0 = Inr t0"
  then have ne: "mockRet \<noteq> []" by auto
  show "if Kind t0 \<in> {reflect_Ptr, reflect_Interface, reflect_Map, reflect_Slice,
                            reflect_Array}
             then executeMock h m input mockRet =
                    (case e2 of
                       None \<Rightarrow> Inr (None, None)
                     | Some ev \<Rightarrow>
                         if implements_error h (TypeOf ev) then Inr (None, Some ev)
                         else Inl (Panic (PanicMockIncorrectErrorType (mw_name m))))
             else (\<exists>p. executeMock h m input mockRet = Inl (Panic p))"
    using executeMock_tuple [OF tuple fn ne, of h input] a
    by (cases e2) (auto simp del: One_nat_def)
qed


lemma example_mock_facts:
  "NumOut (TypeOf (mw_fn example_mock)) = Inr 2"
  "Out (TypeOf (mw_fn example_mock)) 0 = Inr string_type"
  "NumOut (TypeOf (mw_fn example_mock_ptr)) = Inr 2"
  "Out (TypeOf (mw_fn example_mock_ptr)) 0 = Inr (RType ''*Result'' reflect_Ptr [])"
  "\<not> returns_function [Some (GoValue error_type ''boom'')]"
  "\<not> returns_function [Some (GoValue int_type ''7''), None]"
  "\<not> returns_function [None, None]"
  "\<not> AssignableTo example_host (TypeOf (GoValue int_type ''7'')) string_type"
  by (simp_all add: example_mock_def example_mock_ptr_def returns_function_def error_type_def
      int_type_def string_type_def example_host_def)

theorem executeMock_validation_witness:
  "\<not> returns_function [Some (GoValue error_type ''boom'')]
   \<and> \<not> returns_function [Some (GoValue int_type ''7''), None]
   \<and> \<not> returns_function [None, None]
   \<and> NumOut (TypeOf (mw_fn example_mock)) = Inr 2
   \<and> NumOut (TypeOf (mw_fn example_mock_ptr)) = Inr 2
   \<and> executeMock example_host example_mock [] [Some (GoValue error_type ''boom'')]
       = Inl (Panic (PanicMockIncorrectNumberOfReturns ''Activity'' 2 1))
   \<and> (\<exists>p. executeMock example_host example_mock [] [Some (GoValue int_type ''7''), None]
              = Inl (Panic p))
   \<and> (\<exists>p. executeMock example_host example_mock [] [None, None] = Inl (Panic p))
   \<and> executeMock example_host example_mock_ptr [] [None, None] = Inr (None, None)"
proof -
  have a: "executeMock example_host example_mock [] [Some (GoValue error_type ''boom'')]
       = Inl (Panic (PanicMockIncorrectNumberOfReturns ''Activity'' 2 1))"
    using executeMock_validation [OF example_mock_facts(5) example_mock_facts(1),
        THEN conjunct1, of example_host "[]"]
    by (simp add: example_mock_def)
  have b: "\<exists>p. executeMock example_host example_mock [] [Some (GoValue int_type ''7''), None]
              = Inl (Panic p)"
    using executeMock_validation [OF example_mock_facts(6) example_mock_facts(1),
        THEN conjunct2, THEN conjunct1, rule_format, of "GoValue int_type ''7''" None
        string_type example_host "[]"] example_mock_facts(2,8)
    by simp
  have c: "\<exists>p. executeMock example_host example_mock [] [None, None] = Inl (Panic p)"
    using executeMock_validation [OF example_mock_facts(7) example_mock_facts(1),
        THEN conjunct2, THEN conjunct2, rule_format, of None string_type example_host "[]"]
      example_mock_facts(2)
    by (simp add: string_type_def)
  have d: "executeMock example_host example_mock_ptr [] [None, None] = Inr (None, None)"
    using executeMock_validation [OF example_mock_facts(7) example_mock_facts(3),
        THEN conjunct2, THEN conjunct2, rule_format, of None "RType ''*Result'' reflect_Ptr []"
        example_host "[]"] example_mock_facts(4)
    by simp
  show ?thesis using a b c d example_mock_facts by simp
qed

subsection \<open>Identifiers of timers and activities\<close>

lemma digit_char_inj:
  assumes "a < 10" "b < 10" "digit_char a = digit_char b"
  shows "a = b"
proof -
  have d: "distinct ''0123456789''" by simp
  have l: "length ''0123456789'' = 10" by simp
  from assms show ?thesis
    unfolding digit_char_def using nth_eq_iff_index_eq [OF d, of a b] l by simp
qed

lemma digit_char_mem: "a < 10 \<Longrightarrow> digit_char a \<in> set ''0123456789''"
  unfolding digit_char_def by (rule nth_mem) simp

lemma show_nat_ne: "show_nat n \<noteq> []"
  by (subst show_nat.simps) simp

lemma show_nat_digits: "set (show_nat n) \<subseteq> set ''0123456789''"
proof (induction n rule: show_nat.induct)
  case (1 n)
  show ?case
  proof (cases "n < 10")
    case True
    then show ?thesis
      using digit_char_mem [of n] by (subst show_nat.simps) simp
  next
    case False
    have "n mod 10 < 10" by simp
    from digit_char_mem [OF this] 1 [OF False] False show ?thesis
      by (subst show_nat.simps) simp
  qed
qed

lemma show_nat_no_minus: "CHR ''-'' \<notin> set (show_nat n)"
  using show_nat_digits [of n] by auto

lemma show_nat_inj: "show_nat n = show_nat m \<Longrightarrow> n = m"
proof (induction n arbitrary: m rule: show_nat.induct)
  case (1 n)
  show ?case
  proof (cases "n < 10")
    case n: True
    show ?thesis
    proof (cases "m < 10")
      case True
      with n 1(2) show ?thesis
        by (simp add: show_nat.simps [of n] show_nat.simps [of m] digit_char_inj)
    next
      case False
      with n 1(2) show_nat_ne [of "m div 10"] show ?thesis
        by (simp add: show_nat.simps [of n] show_nat.simps [of m])
    qed
  next
    case n: False
    show ?thesis
    proof (cases "m < 10")
      case True
      with n 1(2) show_nat_ne [of "n div 10"] show ?thesis
        by (simp add: show_nat.simps [of n] show_nat.simps [of m])
    next
      case False
      with n 1(2) have e: "show_nat (n div 10) = show_nat (m div 10)"
        and d: "digit_char (n mod 10) = digit_char (m mod 10)"
        by (simp_all add: show_nat.simps [of n] show_nat.simps [of m])
      from 1(1) [OF n e] have q: "n div 10 = m div 10" .
      have "n mod 10 = m mod 10"
        by (rule digit_char_inj [OF _ _ d]) simp_all
      with q show ?thesis by (metis div_mult_mod_eq)
    qed
  qed
qed

lemma getStringID_inj: "getStringID a = getStringID b \<Longrightarrow> a = b"
proof -
  assume e: "getStringID a = getStringID b"
  have "sint a = sint b"
  proof (cases "sint a < 0")
    case a: True
    show ?thesis
    proof (cases "sint b < 0")
      case True
      with a e have "show_nat (nat (- sint a)) = show_nat (nat (- sint b))"
        by (simp add: getStringID_def)
      from show_nat_inj [OF this] a True show ?thesis by simp
    next
      case False
      with a e have "CHR ''-'' # show_nat (nat (- sint a)) = show_nat (nat (sint b))"
        by (simp add: getStringID_def)
      then have "CHR ''-'' \<in> set (show_nat (nat (sint b)))"
        by (metis list.set_intros(1))
      with show_nat_no_minus show ?thesis by blast
    qed
  next
    case a: False
    show ?thesis
    proof (cases "sint b < 0")
      case True
      with a e have "show_nat (nat (sint a)) = CHR ''-'' # show_nat (nat (- sint b))"
        by (simp add: getStringID_def)
      then have "CHR ''-'' \<in> set (show_nat (nat (sint a)))"
        by (metis list.set_intros(1))
      with show_nat_no_minus show ?thesis by blast
    next
      case False
      with a e have "show_nat (nat (sint a)) = show_nat (nat (sint b))"
        by (simp add: getStringID_def)
      from show_nat_inj [OF this] a False show ?thesis by simp
    qed
  qed
  then show ?thesis by (rule signed_word_eqI)
qed

lemma NewTimer_mints:
  "NewTimer e d cb s = (tid, s1) \<Longrightarrow>
     tid = getStringID (counterID s) \<and> counterID s1 = counterID s + 1"
  by (auto simp: NewTimer_def newTimer_def nextID_def mockClock_AfterFunc_def Let_def emit_def
      split: if_splits)

lemma ExecuteActivity_mints:
  "ExecuteActivity h e p cb s = Inr (aid, s1) \<Longrightarrow>
     ep_ActivityID p = None \<or> ep_ActivityID p = Some [] \<Longrightarrow>
     aid = getStringID (counterID s) \<and> counterID s1 = counterID s + 1"
  by (auto simp: ExecuteActivity_def nextID_def Let_def split: if_splits)

lemma minted_distinct:
  assumes "n \<le> 2 ^ 64"
  shows "distinct (map (\<lambda>i. getStringID ((w::go_int) + of_nat i)) [0..<n])"
proof -
  have "inj_on (\<lambda>i. getStringID (w + of_nat i)) (set [0..<n])"
  proof (rule inj_onI)
    fix i j
    assume i: "i \<in> set [0..<n]" and j: "j \<in> set [0..<n]"
      and e: "getStringID (w + of_nat i) = getStringID (w + of_nat j)"
    from getStringID_inj [OF e] have "(of_nat i :: go_int) = of_nat j" by simp
    then have "take_bit 64 i = take_bit 64 j"
      by (simp add: word_of_nat_eq_iff)
    moreover from i j assms have "i < 2 ^ 64" "j < 2 ^ 64" by auto
    ultimately show "i = j" by (simp add: take_bit_nat_eq_self)
  qed
  then show ?thesis by (simp add: distinct_map)
qed

lemma getStringID_1: "getStringID 1 = ''1''"
  by (simp add: getStringID_def show_nat.simps [of "Suc 0"] digit_char_def)

text \<open>
  C6, as the claim states it, fails for an activity id that the caller supplies: in a
  fresh environment \<open>NewTimer\<close> mints the timer id \<open>0\<close>, and an \<open>ExecuteActivity\<close>
  whose parameters carry the activity id \<open>0\<close> then uses that same id.
\<close>

theorem explicit_activity_id_aliases_timer_id:
  "map_sum id fst (run_calls example_host explicit_id_calls newTestWorkflowEnvironmentImpl)
     = Inr [(timer_id, ''0''), (activity_id, ''0'')]"
  by (simp add: explicit_id_calls_def NewTimer_def newTimer_def nextID_def getStringID_0
      mockClock_AfterFunc_def newTestWorkflowEnvironmentImpl_def ExecuteActivity_def
      example_host_def Let_def)

lemma ExecuteActivity_explicit:
  "ExecuteActivity h e p cb s = Inr (aid, s1) \<Longrightarrow>
     \<not> (ep_ActivityID p = None \<or> ep_ActivityID p = Some []) \<Longrightarrow>
     ep_ActivityID p = Some aid \<and> counterID s1 = counterID s"
  by (auto simp: ExecuteActivity_def Let_def split: if_splits)

lemma minted_shift:
  "map (\<lambda>i. getStringID ((w::go_int) + of_nat i)) [0..<Suc n] =
     getStringID w # map (\<lambda>i. getStringID (w + 1 + of_nat i)) [0..<n]"
  by (simp add: upt_conv_Cons map_Suc_upt [symmetric] ac_simps del: upt_Suc)

text \<open>What a run lists: one identifier for each call, named after the call; the
  identifiers of the calls that mint are the successive values of the counter; an
  \<open>ExecuteActivity\<close> that does not mint uses the activity id of its parameters.\<close>

lemma run_calls_ids:
  "run_calls h cs s = Inr (ids, s') \<Longrightarrow>
     length ids = length cs \<and> map fst ids = map names cs \<and>
     map (snd \<circ> snd) (filter (mints_id \<circ> fst) (zip cs ids)) =
       map (\<lambda>i. getStringID (counterID s + of_nat i)) [0..<length (filter mints_id cs)] \<and>
     (\<forall>i<length cs. \<forall>e p cb. cs ! i = call_ExecuteActivity e p cb \<longrightarrow>
        \<not> mints_id (cs ! i) \<longrightarrow> ep_ActivityID p = Some (snd (ids ! i)))"
proof (induction cs arbitrary: s ids)
  case Nil
  then show ?case by simp
next
  case (Cons c cs)
  show ?case
  proof (cases c)
    case (call_NewTimer e d cb)
    obtain tid s1 where nt: "NewTimer e d cb s = (tid, s1)" by (cases "NewTimer e d cb s")
    with Cons.prems call_NewTimer obtain ids' where
      r: "run_calls h cs s1 = Inr (ids', s')" and i: "ids = (timer_id, tid) # ids'"
      by (auto simp: then_do_eq_Inr)
    from Cons.IH [OF r] NewTimer_mints [OF nt] i call_NewTimer
      minted_shift [of "counterID s" "length (filter mints_id cs)"]
    show ?thesis by (auto simp: nth_Cons split: nat.splits)
  next
    case call_nextID
    with Cons.prems obtain ids' where
      r: "run_calls h cs (s\<lparr>counterID := counterID s + 1\<rparr>) = Inr (ids', s')"
      and i: "ids = (other_id, getStringID (counterID s)) # ids'"
      by (auto simp: then_do_eq_Inr nextID_def)
    from Cons.IH [OF r] i call_nextID
      minted_shift [of "counterID s" "length (filter mints_id cs)"]
    show ?thesis by (auto simp: nth_Cons split: nat.splits)
  next
    case (call_ExecuteActivity e p cb)
    with Cons.prems obtain aid s1 ids' where
      ex: "ExecuteActivity h e p cb s = Inr (aid, s1)" and
      r: "run_calls h cs s1 = Inr (ids', s')" and i: "ids = (activity_id, aid) # ids'"
      by (auto simp: then_do_eq_Inr)
    show ?thesis
    proof (cases "ep_ActivityID p = None \<or> ep_ActivityID p = Some []")
      case True
      from Cons.IH [OF r] ExecuteActivity_mints [OF ex True] i call_ExecuteActivity True
        minted_shift [of "counterID s" "length (filter mints_id cs)"]
      show ?thesis by (auto simp: nth_Cons split: nat.splits)
    next
      case False
      from Cons.IH [OF r] ExecuteActivity_explicit [OF ex False] i call_ExecuteActivity False
      show ?thesis by (auto simp: nth_Cons split: nat.splits)
    qed
  qed
qed

lemma distinct_filter_nth:
  "distinct (map f (filter P xs)) \<Longrightarrow> i < j \<Longrightarrow> j < length xs \<Longrightarrow>
     P (xs ! i) \<Longrightarrow> P (xs ! j) \<Longrightarrow> f (xs ! i) \<noteq> f (xs ! j)"
proof (induction xs arbitrary: i j)
  case Nil
  then show ?case by simp
next
  case (Cons x xs)
  from Cons.prems(2) obtain j' where j: "j = Suc j'" by (cases j) auto
  show ?case
  proof (cases i)
    case 0
    with Cons.prems j have px: "P x" and m: "xs ! j' \<in> set (filter P xs)"
      by auto
    with Cons.prems(1) have "f x \<notin> f ` set (filter P xs)" by simp
    with m 0 j show ?thesis by auto
  next
    case (Suc i')
    from Cons.prems(1) have d: "distinct (map f (filter P xs))"
      by (cases "P x") simp_all
    from Cons.IH [OF d, of i' j'] Cons.prems Suc j show ?thesis by simp
  qed
qed

text \<open>
  C6, amended. In any run of calls, from any state, in which at most \<open>2 ^ 64\<close> calls mint
  an identifier (the counter is a 64-bit integer and wraps around): every call uses one
  identifier, and any two different calls that mint (every \<open>NewTimer\<close>, every
  \<open>ExecuteActivity\<close> without an activity id of its own, every other use of the
  counter) use different identifiers, whatever else the run holds. So no timer id
  equals the id of an activity that was minted. An \<open>ExecuteActivity\<close> whose parameters
  give an activity id uses that id as it is.
\<close>

theorem minted_ids_do_not_alias:
  assumes run: "run_calls h cs s = Inr (ids, s')"
      and bound: "length (filter mints_id cs) \<le> 2 ^ 64"
  shows "length ids = length cs \<and> map fst ids = map names cs
       \<and> (\<forall>i j. i < length cs \<and> j < length cs \<and> i \<noteq> j
              \<and> mints_id (cs ! i) \<and> mints_id (cs ! j) \<longrightarrow> snd (ids ! i) \<noteq> snd (ids ! j))
       \<and> (\<forall>i j. i < length cs \<and> j < length cs
              \<and> names (cs ! i) = timer_id \<and> names (cs ! j) = activity_id
              \<and> mints_id (cs ! j) \<longrightarrow> snd (ids ! i) \<noteq> snd (ids ! j))
       \<and> (\<forall>i e p cb. i < length cs \<and> cs ! i = call_ExecuteActivity e p cb
              \<and> \<not> mints_id (cs ! i) \<longrightarrow> ep_ActivityID p = Some (snd (ids ! i)))"
proof -
  note facts = run_calls_ids [OF run]
  from facts have len: "length ids = length cs" and nm: "map fst ids = map names cs"
    by simp_all
  from facts have "map (snd \<circ> snd) (filter (mints_id \<circ> fst) (zip cs ids)) =
       map (\<lambda>i. getStringID (counterID s + of_nat i)) [0..<length (filter mints_id cs)]"
    by simp
  with minted_distinct [OF bound, of "counterID s"]
  have d: "distinct (map (snd \<circ> snd) (filter (mints_id \<circ> fst) (zip cs ids)))" by simp
  have lt: "snd (ids ! i) \<noteq> snd (ids ! j)"
    if "i < j" "j < length cs" "mints_id (cs ! i)" "mints_id (cs ! j)" for i j
    using distinct_filter_nth [OF d, of i j] that len by simp
  have pair: "snd (ids ! i) \<noteq> snd (ids ! j)"
    if "i < length cs" "j < length cs" "i \<noteq> j" "mints_id (cs ! i)" "mints_id (cs ! j)" for i j
  proof (cases "i < j")
    case True
    with that lt show ?thesis by simp
  next
    case False
    with that have "j < i" by simp
    with that lt [of j i] show ?thesis by auto
  qed
  have timers_mint: "mints_id c" if "names c = timer_id" for c
    using that by (cases c) simp_all
  have ta: "snd (ids ! i) \<noteq> snd (ids ! j)"
    if "i < length cs" "j < length cs" "names (cs ! i) = timer_id"
       "names (cs ! j) = activity_id" "mints_id (cs ! j)" for i j
  proof -
    from that have "i \<noteq> j" by auto
    with that timers_mint [of "cs ! i"] pair show ?thesis by simp
  qed
  from facts have ex: "\<forall>i e p cb. i < length cs \<and> cs ! i = call_ExecuteActivity e p cb
              \<and> \<not> mints_id (cs ! i) \<longrightarrow> ep_ActivityID p = Some (snd (ids ! i))"
    by blast
  show ?thesis using len nm pair ta ex by blast
qed

lemma mixed_calls_run:
  "\<exists>s'. run_calls example_host mixed_calls newTestWorkflowEnvironmentImpl
          = Inr ([(timer_id, ''0''), (activity_id, ''0''), (activity_id, ''1'')], s')"
  by (simp add: mixed_calls_def explicit_id_calls_def NewTimer_def
      newTimer_def nextID_def getStringID_0 getStringID_1
      mockClock_AfterFunc_def newTestWorkflowEnvironmentImpl_def ExecuteActivity_def
      example_host_def Let_def)

theorem minted_ids_do_not_alias_witness:
  "map_sum id fst (run_calls example_host mixed_calls newTestWorkflowEnvironmentImpl)
       = Inr [(timer_id, ''0''), (activity_id, ''0''), (activity_id, ''1'')]
   \<and> length (filter mints_id mixed_calls) = 2
   \<and> mints_id (mixed_calls ! 0) \<and> \<not> mints_id (mixed_calls ! 1) \<and> mints_id (mixed_calls ! 2)
   \<and> snd ([(timer_id, ''0''), (activity_id, ''0''), (activity_id, ''1'')] ! 0)
       \<noteq> snd ([(timer_id, ''0''), (activity_id, ''0''), (activity_id, ''1'')] ! 2)
   \<and> ep_ActivityID \<lparr>ep_ActivityID = Some ''0'', ep_ActivityType = ''activity'',
                    ep_TaskListName = ''tl''\<rparr>
       = Some (snd ([(timer_id, ''0''), (activity_id, ''0''), (activity_id, ''1'')] ! 1))"
proof -
  from mixed_calls_run obtain s' where
    r: "run_calls example_host mixed_calls newTestWorkflowEnvironmentImpl
          = Inr ([(timer_id, ''0''), (activity_id, ''0''), (activity_id, ''1'')], s')" ..
  have m: "length (filter mints_id mixed_calls) = 2" "length mixed_calls = 3"
    "mints_id (mixed_calls ! 0)" "\<not> mints_id (mixed_calls ! 1)" "mints_id (mixed_calls ! 2)"
    "names (mixed_calls ! 0) = timer_id" "names (mixed_calls ! 2) = activity_id"
    "mixed_calls ! 1 = call_ExecuteActivity 0
       \<lparr>ep_ActivityID = Some ''0'', ep_ActivityType = ''activity'', ep_TaskListName = ''tl''\<rparr> 4"
    by (simp_all add: mixed_calls_def explicit_id_calls_def)
  then have b: "length (filter mints_id mixed_calls) \<le> 2 ^ 64" by simp
  note inst = minted_ids_do_not_alias [OF r b]
  from inst [THEN conjunct2, THEN conjunct2, THEN conjunct2, THEN conjunct1, rule_format,
      of 0 2] m
  have a: "snd ([(timer_id, ''0''), (activity_id, ''0''), (activity_id, ''1'')] ! 0)
       \<noteq> snd ([(timer_id, ''0''), (activity_id, ''0''), (activity_id, ''1'')] ! 2)"
    by simp
  from inst [THEN conjunct2, THEN conjunct2, THEN conjunct2, THEN conjunct2, rule_format,
      of 1 0 "\<lparr>ep_ActivityID = Some ''0'', ep_ActivityType = ''activity'',
                ep_TaskListName = ''tl''\<rparr>" 4] m
  have e: "ep_ActivityID \<lparr>ep_ActivityID = Some ''0'', ep_ActivityType = ''activity'',
                    ep_TaskListName = ''tl''\<rparr>
       = Some (snd ([(timer_id, ''0''), (activity_id, ''0''), (activity_id, ''1'')] ! 1))"
    by simp
  from r a e m show ?thesis by simp
qed

subsection \<open>The main loop\<close>





















text \<open>The state with the two pending callbacks is reached from the state with the guarded
  timer when the wall-clock guard fires and the goroutine of the activity ends.\<close>

lemma pending_state_reached:
  "then_do (wallTimer_fires 1 guarded_timer_state)
     (ExecuteActivity_goroutine 0 ''act'' (Some (RespondActivityTaskCompletedRequest ''ok''))
        ''activity'') = Inr pending_state"
  by (simp add: wallTimer_fires_def guarded_timer_state_def newTestWorkflowEnvironmentImpl_def
      run_timer_fn_def postCallback_def callbackChannel_capacity_def Timer_Stop_def
      ExecuteActivity_goroutine_def pending_state_def)









end
